theory Spec2Isabelle
  imports Main "HOL-Library.Word"
begin

section \<open>Data model of the liquidstakeibc keeper\<close>

text \<open>
  The hooks of the liquidstakeibc keeper (epoch hooks and IBC transfer hooks) are embedded
  as functions on an explicit keeper state. Token amounts (\<open>sdk.Int\<close>) are integers;
  decimal values (\<open>sdk.Dec\<close>, 18 fractional digits) are the integer numerator over
  \<open>10 ^ 18\<close>. A Go error return is the left summand of a sum type, a panic is the
  error \<open>Panic\<close>.
\<close>

type_synonym chain_id = string
type_synonym sequence_id = string

datatype error =
    ErrDepositNotFound chain_id int
  | ErrParsingAmount string
  | ErrFailedDeposit
  | ErrInvalidAcknowledgement
  | ErrUnmarshal
  | ErrHostChainNotRegistered chain_id
  | ErrCollaborator string
  | Panic

record coin =
  coin_Denom :: string
  coin_Amount :: int

datatype ica_channel_state = ICA_CHANNEL_CREATING | ICA_CHANNEL_CREATED

record ica_account =
  ica_Address :: string
  ica_Owner :: string
  ica_Balance :: coin
  ica_ChannelState :: ica_channel_state

record validator =
  val_OperatorAddress :: string
  val_DelegatedAmount :: int
  val_Weight :: int
  val_UnbondingEpoch :: int

text \<open>
  \<open>hc_RewardsAccount\<close> and \<open>hc_RewardParams\<close> are pointers that the code compares with
  nil, hence options; the content of the reward parameters is never read by the hooks.
  \<open>hc_RestakeFee\<close> is \<open>Params.RestakeFee\<close>, \<open>hc_Lsm\<close> is \<open>Flags.Lsm\<close>,
  \<open>hc_CValue\<close> is the exchange value of the chain.
\<close>

record host_chain =
  hc_ChainId :: chain_id
  hc_Active :: bool
  hc_ChannelId :: string
  hc_ConnectionId :: string
  hc_HostDenom :: string
  hc_IBCDenom :: string
  hc_DelegationAccount :: ica_account
  hc_RewardsAccount :: "ica_account option"
  hc_Validators :: "validator list"
  hc_UnbondingFactor :: int
  hc_RestakeFee :: int
  hc_Lsm :: bool
  hc_RewardParams :: "unit option"
  hc_CValue :: int

datatype deposit_state = DEPOSIT_PENDING | DEPOSIT_SENT | DEPOSIT_RECEIVED

record deposit =
  dep_ChainId :: chain_id
  dep_Epoch :: int
  dep_Amount :: coin
  dep_State :: deposit_state
  dep_IbcSequenceId :: sequence_id

text \<open>
  The tokenized-share deposit has, in the words of the spec, a unique id as its key
  (\<open>lsm_Id\<close>); the hooks read its chain, its IBC denomination and its shares.
\<close>

record lsm_deposit =
  lsm_Id :: string
  lsm_ChainId :: chain_id
  lsm_IbcDenom :: string
  lsm_Shares :: int
  lsm_State :: deposit_state
  lsm_IbcSequenceId :: sequence_id

datatype unbonding_state =
    UNBONDING_PENDING | UNBONDING_INITIATED | UNBONDING_MATURING | UNBONDING_MATURED
  | UNBONDING_CLAIMABLE | UNBONDING_FAILED

record unbonding =
  unb_ChainId :: chain_id
  unb_EpochNumber :: int
  unb_UnbondAmount :: coin
  unb_BurnAmount :: coin
  unb_State :: unbonding_state
  unb_IbcSequenceId :: sequence_id

record validator_unbonding =
  vu_ChainId :: chain_id
  vu_EpochNumber :: int
  vu_ValidatorAddress :: string
  vu_Amount :: coin
  vu_IbcSequenceId :: sequence_id

datatype redelegate_state = REDELEGATE_SENT | REDELEGATE_ACKED

record redelegate_tx =
  rd_ChainId :: chain_id
  rd_IbcSequenceId :: sequence_id
  rd_State :: redelegate_state

text \<open>
  The messages the hooks build for the remote side: an IBC transfer handed to the message
  router, and the staking and distribution messages executed through an interchain account.
  The timeout of a transfer is a \<open>uint64\<close>.
\<close>

datatype remote_msg =
    MsgTransfer string coin string string "64 word" string
  | MsgUndelegate string string coin
  | MsgWithdrawDelegatorReward string string
  | MsgBeginRedelegate string string string coin

text \<open>
  Every call of a collaborator is recorded, in call order, with the chain whose iteration
  made it and whether the collaborator accepted it: a transfer handed to the message
  router for a deposit (with the epoch of the deposit) or for a tokenized-share deposit
  (with its id), a transaction executed through the interchain account, a balance query,
  the payment of the protocol fee and the recomputation of the exchange value.
\<close>

datatype submission =
    DepositTransfer chain_id int remote_msg bool
  | LSMTransfer chain_id string remote_msg bool
  | ICATx chain_id string string "remote_msg list" bool
  | ICQRewardsBalance chain_id bool
  | ICQNonCompoundableRewardsBalance chain_id bool
  | ProtocolFee chain_id "coin list" string bool
  | CValueUpdate chain_id

fun submission_chain :: "submission \<Rightarrow> chain_id" where
  "submission_chain (DepositTransfer c _ _ _) = c"
| "submission_chain (LSMTransfer c _ _ _) = c"
| "submission_chain (ICATx c _ _ _ _) = c"
| "submission_chain (ICQRewardsBalance c _) = c"
| "submission_chain (ICQNonCompoundableRewardsBalance c _) = c"
| "submission_chain (ProtocolFee c _ _ _) = c"
| "submission_chain (CValueUpdate c) = c"

text \<open>The remote messages carried by a recorded call (only transfers and transactions carry any).\<close>

fun submission_msgs :: "submission \<Rightarrow> remote_msg list" where
  "submission_msgs (DepositTransfer _ _ m _) = [m]"
| "submission_msgs (LSMTransfer _ _ m _) = [m]"
| "submission_msgs (ICATx _ _ _ ms _) = ms"
| "submission_msgs (ICQRewardsBalance _ _) = []"
| "submission_msgs (ICQNonCompoundableRewardsBalance _ _) = []"
| "submission_msgs (ProtocolFee _ _ _ _) = []"
| "submission_msgs (CValueUpdate _) = []"

fun is_ICATx :: "submission \<Rightarrow> bool" where
  "is_ICATx (ICATx _ _ _ _ _) = True"
| "is_ICATx _ = False"

datatype event =
    EventTypeUnbondingMaturedReceived chain_id int coin
  | EventTypeValidatorUnbondingMaturedReceived chain_id coin
  | EventAutocompoundRewardsReceived chain_id coin coin
  | EventStakingDepositTransferReceived chain_id sequence_id
  | EventLSMDepositTransferReceived chain_id sequence_id
  | EventStakingDepositTransferTimeout chain_id sequence_id
  | EventLSMDepositTransferTimeout chain_id sequence_id
  | EventTypeDelegationWorkflow chain_id int coin sequence_id
  | EventUnsuccessfulUndelegationInitiation chain_id int
  | EventTypeUndelegationWorkflow chain_id int coin coin "remote_msg list" sequence_id
  | EventTypeValidatorUndelegationWorkflow chain_id int string coin sequence_id
  | EventTypeRewardsWorkflow chain_id int "remote_msg list"
  | EventTypeLSMWorkflow chain_id int
  | RouterEvent string

text \<open>
  The keeper state: the record tables of the store (each in the order the store iterates
  it), the emitted events and the recorded collaborator calls (both oldest first), and the
  two values the hooks read from the context: the block time in Unix nanoseconds
  (an \<open>int64\<close>) and the number of the current delegation epoch.
\<close>

record keeper_state =
  hostChains :: "host_chain list"
  deposits :: "deposit list"
  lsmDeposits :: "lsm_deposit list"
  unbondings :: "unbonding list"
  validatorUnbondings :: "validator_unbonding list"
  redelegateTxs :: "redelegate_tx list"
  events :: "event list"
  submissions :: "submission list"
  blockTimeNanos :: "64 word"
  delegationEpoch :: int

definition EmitEvent :: "event \<Rightarrow> keeper_state \<Rightarrow> keeper_state" where
  "EmitEvent e s = s\<lparr>events := events s @ [e]\<rparr>"

definition record_call :: "submission \<Rightarrow> keeper_state \<Rightarrow> keeper_state" where
  "record_call c s = s\<lparr>submissions := submissions s @ [c]\<rparr>"

subsection \<open>Store accessors\<close>

text \<open>
  Modelled from the spec: the store accessors of the keeper (\<open>GetAllHostChains\<close>,
  \<open>GetHostChain\<close>, \<open>SetHostChain\<close> and their siblings for the other tables) are not part
  of the hook sources. The spec describes the registry as an explicit keyed store
  (chain id to host chain); a table is the list of its records, a lookup returns the first
  record with the key, and a write replaces the record with that key or adds a new one.
\<close>

definition GetAllHostChains :: "keeper_state \<Rightarrow> host_chain list" where
  "GetAllHostChains s = hostChains s"

definition GetHostChain :: "keeper_state \<Rightarrow> chain_id \<Rightarrow> host_chain option" where
  "GetHostChain s c = find (\<lambda>h. hc_ChainId h = c) (hostChains s)"

fun upsert :: "('a \<Rightarrow> bool) \<Rightarrow> 'a \<Rightarrow> 'a list \<Rightarrow> 'a list" where
  "upsert same x [] = [x]"
| "upsert same x (y # ys) = (if same y then x # ys else y # upsert same x ys)"

definition SetHostChain :: "host_chain \<Rightarrow> keeper_state \<Rightarrow> keeper_state" where
  "SetHostChain h s =
     s\<lparr>hostChains := upsert (\<lambda>y. hc_ChainId y = hc_ChainId h) h (hostChains s)\<rparr>"

section \<open>Rewards workflow\<close>

text \<open>
  \<open>GenerateAndExecuteICATx\<close> and the two balance queries are collaborators: parameters
  that answer from the state at the call and the arguments of the call.
\<close>

type_synonym ica_executor =
  "keeper_state \<Rightarrow> string \<Rightarrow> string \<Rightarrow> remote_msg list \<Rightarrow> error + sequence_id"

type_synonym icq_sender = "keeper_state \<Rightarrow> host_chain \<Rightarrow> error option"

definition GenerateAndExecuteICATx ::
  "ica_executor \<Rightarrow> host_chain \<Rightarrow> remote_msg list \<Rightarrow> keeper_state
     \<Rightarrow> (error + sequence_id) \<times> keeper_state" where
  "GenerateAndExecuteICATx ica hc messages s =
     (let r = ica s (hc_ConnectionId hc) (ica_Owner (hc_DelegationAccount hc)) messages
      in (r, record_call (ICATx (hc_ChainId hc) (hc_ConnectionId hc)
                            (ica_Owner (hc_DelegationAccount hc)) messages (\<not> isl r)) s))"

text \<open>The message list of one chain: one withdrawal per validator with positive delegation.\<close>

fun withdraw_reward_messages :: "host_chain \<Rightarrow> validator list \<Rightarrow> remote_msg list" where
  "withdraw_reward_messages hc [] = []"
| "withdraw_reward_messages hc (v # vs) =
     (if val_DelegatedAmount v > 0
      then MsgWithdrawDelegatorReward (ica_Address (hc_DelegationAccount hc))
             (val_OperatorAddress v) # withdraw_reward_messages hc vs
      else withdraw_reward_messages hc vs)"

text \<open>
  The batch submission of one chain. The second component is True when the iteration
  ends here (the \<open>continue\<close> after a failed submission).
\<close>

definition rewards_submit ::
  "ica_executor \<Rightarrow> int \<Rightarrow> host_chain \<Rightarrow> keeper_state \<Rightarrow> keeper_state \<times> bool" where
  "rewards_submit ica epoch hc s =
     (let messages = withdraw_reward_messages hc (hc_Validators hc)
      in if length messages > 0
         then (case GenerateAndExecuteICATx ica hc messages s of
                 (Inl err, s1) \<Rightarrow> (s1, True)
               | (Inr sequenceID, s1) \<Rightarrow>
                   (EmitEvent (EventTypeRewardsWorkflow (hc_ChainId hc) epoch messages) s1,
                    False))
         else (s, False))"

definition rewards_queries ::
  "icq_sender \<Rightarrow> icq_sender \<Rightarrow> host_chain \<Rightarrow> keeper_state \<Rightarrow> keeper_state" where
  "rewards_queries queryNonCompoundable queryRewards hc s =
     (case hc_RewardsAccount hc of
        None \<Rightarrow> s
      | Some ra \<Rightarrow>
          if ica_ChannelState ra = ICA_CHANNEL_CREATED
          then (let s1 = (case hc_RewardParams hc of
                            None \<Rightarrow> s
                          | Some _ \<Rightarrow>
                              record_call (ICQNonCompoundableRewardsBalance (hc_ChainId hc)
                                (queryNonCompoundable s hc = None)) s)
                in record_call (ICQRewardsBalance (hc_ChainId hc) (queryRewards s1 hc = None)) s1)
          else s)"

definition RewardsWorkflow_chain ::
  "ica_executor \<Rightarrow> icq_sender \<Rightarrow> icq_sender \<Rightarrow> int \<Rightarrow> host_chain
     \<Rightarrow> keeper_state \<Rightarrow> keeper_state" where
  "RewardsWorkflow_chain ica queryNonCompoundable queryRewards epoch hc s =
     (if \<not> hc_Active hc then s
      else (case rewards_submit ica epoch hc s of
              (s1, True) \<Rightarrow> s1
            | (s1, False) \<Rightarrow> rewards_queries queryNonCompoundable queryRewards hc s1))"

definition RewardsWorkflow ::
  "ica_executor \<Rightarrow> icq_sender \<Rightarrow> icq_sender \<Rightarrow> keeper_state \<Rightarrow> int \<Rightarrow> keeper_state" where
  "RewardsWorkflow ica queryNonCompoundable queryRewards s epoch =
     fold (RewardsWorkflow_chain ica queryNonCompoundable queryRewards epoch)
       (GetAllHostChains s) s"

text \<open>The calls a run has added to the record of a state.\<close>

definition new_calls :: "keeper_state \<Rightarrow> keeper_state \<Rightarrow> submission list" where
  "new_calls s s' = drop (length (submissions s)) (submissions s')"

text \<open>
  What the rewards workflow may record while it processes the chain \<open>hc\<close>: a batch
  transaction only for an active chain, with at least one message, and only when some
  validator of the chain has a positive delegation.
\<close>

definition rewards_call_ok :: "host_chain \<Rightarrow> submission \<Rightarrow> bool" where
  "rewards_call_ok hc c =
     (is_ICATx c \<longrightarrow>
        submission_chain c = hc_ChainId hc \<and> hc_Active hc \<and> submission_msgs c \<noteq> [] \<and>
        (\<exists>v\<in>set (hc_Validators hc). 0 < val_DelegatedAmount v))"

section \<open>The other tables of the store\<close>

text \<open>
  Modelled from the spec: the accessors of the deposit, unbonding, validator-unbonding and
  redelegation tables are not part of the hook sources. The spec gives the keys:
  (chain id, epoch) for a deposit, the unique id for a tokenized-share deposit,
  (chain id, epoch bucket) for an unbonding, (chain, validator, epoch) for a validator
  unbonding, and one redelegation record per submitted message (chain and sequence id).
\<close>

definition same_deposit :: "deposit \<Rightarrow> deposit \<Rightarrow> bool" where
  "same_deposit d y = (dep_ChainId y = dep_ChainId d \<and> dep_Epoch y = dep_Epoch d)"

definition SetDeposit :: "deposit \<Rightarrow> keeper_state \<Rightarrow> keeper_state" where
  "SetDeposit d s = s\<lparr>deposits := upsert (same_deposit d) d (deposits s)\<rparr>"

definition DeleteDeposit :: "deposit \<Rightarrow> keeper_state \<Rightarrow> keeper_state" where
  "DeleteDeposit d s = s\<lparr>deposits := filter (\<lambda>y. \<not> same_deposit d y) (deposits s)\<rparr>"

definition GetDepositForChainAndEpoch ::
  "keeper_state \<Rightarrow> chain_id \<Rightarrow> int \<Rightarrow> deposit option" where
  "GetDepositForChainAndEpoch s c e =
     find (\<lambda>y. dep_ChainId y = c \<and> dep_Epoch y = e) (deposits s)"

definition same_lsm_deposit :: "lsm_deposit \<Rightarrow> lsm_deposit \<Rightarrow> bool" where
  "same_lsm_deposit d y = (lsm_Id y = lsm_Id d)"

definition SetLSMDeposit :: "lsm_deposit \<Rightarrow> keeper_state \<Rightarrow> keeper_state" where
  "SetLSMDeposit d s = s\<lparr>lsmDeposits := upsert (same_lsm_deposit d) d (lsmDeposits s)\<rparr>"

definition same_unbonding :: "unbonding \<Rightarrow> unbonding \<Rightarrow> bool" where
  "same_unbonding u y =
     (unb_ChainId y = unb_ChainId u \<and> unb_EpochNumber y = unb_EpochNumber u)"

definition GetUnbonding :: "keeper_state \<Rightarrow> chain_id \<Rightarrow> int \<Rightarrow> unbonding option" where
  "GetUnbonding s c e =
     find (\<lambda>y. unb_ChainId y = c \<and> unb_EpochNumber y = e) (unbondings s)"

definition SetUnbonding :: "unbonding \<Rightarrow> keeper_state \<Rightarrow> keeper_state" where
  "SetUnbonding u s = s\<lparr>unbondings := upsert (same_unbonding u) u (unbondings s)\<rparr>"

definition FilterUnbondings :: "keeper_state \<Rightarrow> (unbonding \<Rightarrow> bool) \<Rightarrow> unbonding list" where
  "FilterUnbondings s f = filter f (unbondings s)"

definition SetValidatorUnbonding :: "validator_unbonding \<Rightarrow> keeper_state \<Rightarrow> keeper_state" where
  "SetValidatorUnbonding u s =
     s\<lparr>validatorUnbondings :=
         upsert (\<lambda>y. vu_ChainId y = vu_ChainId u \<and> vu_ValidatorAddress y = vu_ValidatorAddress u
                     \<and> vu_EpochNumber y = vu_EpochNumber u) u (validatorUnbondings s)\<rparr>"

definition SetRedelegationTx :: "redelegate_tx \<Rightarrow> keeper_state \<Rightarrow> keeper_state" where
  "SetRedelegationTx r s =
     s\<lparr>redelegateTxs :=
         upsert (\<lambda>y. rd_ChainId y = rd_ChainId r \<and> rd_IbcSequenceId y = rd_IbcSequenceId r) r
           (redelegateTxs s)\<rparr>"

text \<open>
  \<open>sdk.NewCoin\<close> builds the coin; it panics on a negative amount, which the amounts of
  stored validators and records never are (they are themselves valid coins and delegations).
\<close>

definition NewCoin :: "string \<Rightarrow> int \<Rightarrow> coin" where
  "NewCoin d a = \<lparr>coin_Denom = d, coin_Amount = a\<rparr>"

section \<open>Validator undelegation workflow\<close>

text \<open>
  \<open>IsUnbondingEpoch\<close>, the constant \<open>UnbondingStateEpochLimit\<close> and
  \<open>RedistributeValidatorWeight\<close> belong to files that are not at hand and are
  parameters (\<open>isUnbondingEpoch\<close>, \<open>limit\<close>, \<open>redistribute\<close>); the redistribution
  returns the host chain with the new weights, which is written to the registry.

  The loop over the validators of one chain. The second component of the result is True
  when the code has executed its \<open>return\<close>: the submission of a validator has failed.
\<close>

fun validator_undelegation_loop ::
  "ica_executor \<Rightarrow> (host_chain \<Rightarrow> validator \<Rightarrow> host_chain) \<Rightarrow> int \<Rightarrow> int \<Rightarrow> host_chain
     \<Rightarrow> validator list \<Rightarrow> keeper_state \<Rightarrow> keeper_state \<times> bool" where
  "validator_undelegation_loop ica redistribute limit epoch hc [] s = (s, False)"
| "validator_undelegation_loop ica redistribute limit epoch hc (v # vs) s =
     (if val_UnbondingEpoch v > 0 \<and> val_UnbondingEpoch v + limit \<le> epoch
      then (let validatorUnbonding =
                  \<lparr>vu_ChainId = hc_ChainId hc, vu_EpochNumber = epoch,
                   vu_ValidatorAddress = val_OperatorAddress v,
                   vu_Amount = NewCoin (hc_HostDenom hc) (val_DelegatedAmount v),
                   vu_IbcSequenceId = []\<rparr>;
                message = MsgUndelegate (ica_Address (hc_DelegationAccount hc))
                            (vu_ValidatorAddress validatorUnbonding)
                            (vu_Amount validatorUnbonding)
            in case GenerateAndExecuteICATx ica hc [message] s of
                 (Inl err, s1) \<Rightarrow> (s1, True)
               | (Inr sequenceID, s1) \<Rightarrow>
                   validator_undelegation_loop ica redistribute limit epoch hc vs
                     (EmitEvent
                        (EventTypeValidatorUndelegationWorkflow (hc_ChainId hc) epoch
                           (vu_ValidatorAddress validatorUnbonding)
                           (NewCoin (hc_HostDenom hc) (coin_Amount (vu_Amount validatorUnbonding)))
                           sequenceID)
                        (SetHostChain (redistribute hc v)
                           (SetValidatorUnbonding
                              (validatorUnbonding\<lparr>vu_IbcSequenceId := sequenceID\<rparr>) s1))))
      else validator_undelegation_loop ica redistribute limit epoch hc vs s)"

text \<open>The loop over the host chains; a \<open>return\<close> inside ends it.\<close>

fun validator_undelegation_chains ::
  "ica_executor \<Rightarrow> (host_chain \<Rightarrow> validator \<Rightarrow> host_chain) \<Rightarrow> (int \<Rightarrow> int \<Rightarrow> bool) \<Rightarrow> int
     \<Rightarrow> int \<Rightarrow> host_chain list \<Rightarrow> keeper_state \<Rightarrow> keeper_state" where
  "validator_undelegation_chains ica redistribute isUnbondingEpoch limit epoch [] s = s"
| "validator_undelegation_chains ica redistribute isUnbondingEpoch limit epoch (hc # hcs) s =
     (if \<not> hc_Active hc
      then validator_undelegation_chains ica redistribute isUnbondingEpoch limit epoch hcs s
      else if \<not> isUnbondingEpoch (hc_UnbondingFactor hc) epoch
      then validator_undelegation_chains ica redistribute isUnbondingEpoch limit epoch hcs s
      else (case validator_undelegation_loop ica redistribute limit epoch hc
                   (hc_Validators hc) s of
              (s1, True) \<Rightarrow> s1
            | (s1, False) \<Rightarrow>
                validator_undelegation_chains ica redistribute isUnbondingEpoch limit epoch
                  hcs s1))"

definition ValidatorUndelegationWorkflow ::
  "ica_executor \<Rightarrow> (host_chain \<Rightarrow> validator \<Rightarrow> host_chain) \<Rightarrow> (int \<Rightarrow> int \<Rightarrow> bool) \<Rightarrow> int
     \<Rightarrow> keeper_state \<Rightarrow> int \<Rightarrow> keeper_state" where
  "ValidatorUndelegationWorkflow ica redistribute isUnbondingEpoch limit s epoch =
     validator_undelegation_chains ica redistribute isUnbondingEpoch limit epoch
       (GetAllHostChains s) s"

section \<open>Rebalance workflow\<close>

text \<open>
  \<open>GenerateRedelegateMsgs\<close> is the external allocation function of the spec, a parameter
  that answers from the state and the chain. Each message is its own transaction.
\<close>

definition rebalance_submit ::
  "ica_executor \<Rightarrow> host_chain \<Rightarrow> remote_msg \<Rightarrow> keeper_state \<Rightarrow> keeper_state" where
  "rebalance_submit ica hc msg s =
     (case GenerateAndExecuteICATx ica hc [msg] s of
        (Inl err, s1) \<Rightarrow> s1
      | (Inr ibcSeq, s1) \<Rightarrow>
          SetRedelegationTx
            \<lparr>rd_ChainId = hc_ChainId hc, rd_IbcSequenceId = ibcSeq, rd_State = REDELEGATE_SENT\<rparr>
            s1)"

definition RebalanceWorkflow_chain ::
  "ica_executor \<Rightarrow> (keeper_state \<Rightarrow> host_chain \<Rightarrow> remote_msg list) \<Rightarrow> (int \<Rightarrow> int \<Rightarrow> bool)
     \<Rightarrow> int \<Rightarrow> host_chain \<Rightarrow> keeper_state \<Rightarrow> keeper_state" where
  "RebalanceWorkflow_chain ica generateRedelegateMsgs isUnbondingEpoch epoch hc s =
     (if isUnbondingEpoch (hc_UnbondingFactor hc) epoch then s
      else fold (rebalance_submit ica hc) (generateRedelegateMsgs s hc) s)"

definition RebalanceWorkflow ::
  "ica_executor \<Rightarrow> (keeper_state \<Rightarrow> host_chain \<Rightarrow> remote_msg list) \<Rightarrow> (int \<Rightarrow> int \<Rightarrow> bool)
     \<Rightarrow> keeper_state \<Rightarrow> int \<Rightarrow> keeper_state" where
  "RebalanceWorkflow ica generateRedelegateMsgs isUnbondingEpoch s epoch =
     fold (RebalanceWorkflow_chain ica generateRedelegateMsgs isUnbondingEpoch epoch)
       (GetAllHostChains s) s"

section \<open>Undelegation workflow\<close>

text \<open>
  \<open>CurrentUnbondingEpoch\<close> and \<open>GenerateUndelegateMessages\<close> are parameters as well
  (the allocation of the unbond amount over the validators can fail).
\<close>

definition undelegation_failed :: "unbonding \<Rightarrow> host_chain \<Rightarrow> int \<Rightarrow> keeper_state \<Rightarrow> keeper_state" where
  "undelegation_failed unbonding hc epoch s =
     EmitEvent (EventUnsuccessfulUndelegationInitiation (hc_ChainId hc) epoch)
       (SetUnbonding (unbonding\<lparr>unb_State := UNBONDING_FAILED\<rparr>) s)"

definition undelegation_initiated ::
  "unbonding \<Rightarrow> host_chain \<Rightarrow> int \<Rightarrow> remote_msg list \<Rightarrow> sequence_id \<Rightarrow> keeper_state
     \<Rightarrow> keeper_state" where
  "undelegation_initiated unbonding hc epoch messages sequenceID s =
     EmitEvent
       (EventTypeUndelegationWorkflow (hc_ChainId hc) epoch
          (NewCoin (hc_HostDenom hc) (coin_Amount (unb_UnbondAmount unbonding)))
          (NewCoin (hc_HostDenom hc) (coin_Amount (unb_BurnAmount unbonding)))
          messages sequenceID)
       (SetUnbonding
          (unbonding\<lparr>unb_IbcSequenceId := sequenceID, unb_State := UNBONDING_INITIATED\<rparr>) s)"

definition UndelegationWorkflow_chain ::
  "ica_executor \<Rightarrow> (host_chain \<Rightarrow> int \<Rightarrow> error + remote_msg list) \<Rightarrow> (int \<Rightarrow> int \<Rightarrow> bool)
     \<Rightarrow> (int \<Rightarrow> int \<Rightarrow> int) \<Rightarrow> int \<Rightarrow> host_chain \<Rightarrow> keeper_state \<Rightarrow> keeper_state" where
  "UndelegationWorkflow_chain ica generateUndelegateMessages isUnbondingEpoch
       currentUnbondingEpoch epoch hc s =
     (if \<not> hc_Active hc then s
      else if \<not> isUnbondingEpoch (hc_UnbondingFactor hc) epoch then s
      else (case GetUnbonding s (hc_ChainId hc)
                   (currentUnbondingEpoch (hc_UnbondingFactor hc) epoch) of
              None \<Rightarrow> s
            | Some unbonding \<Rightarrow>
                if \<not> coin_Amount (unb_UnbondAmount unbonding) > 0 then s
                else (case generateUndelegateMessages hc
                             (coin_Amount (unb_UnbondAmount unbonding)) of
                        Inl err \<Rightarrow> undelegation_failed unbonding hc epoch s
                      | Inr messages \<Rightarrow>
                          (case GenerateAndExecuteICATx ica hc messages s of
                             (Inl err, s1) \<Rightarrow> undelegation_failed unbonding hc epoch s1
                           | (Inr sequenceID, s1) \<Rightarrow>
                               undelegation_initiated unbonding hc epoch messages
                                 sequenceID s1))))"

definition UndelegationWorkflow ::
  "ica_executor \<Rightarrow> (host_chain \<Rightarrow> int \<Rightarrow> error + remote_msg list) \<Rightarrow> (int \<Rightarrow> int \<Rightarrow> bool)
     \<Rightarrow> (int \<Rightarrow> int \<Rightarrow> int) \<Rightarrow> keeper_state \<Rightarrow> int \<Rightarrow> keeper_state" where
  "UndelegationWorkflow ica generateUndelegateMessages isUnbondingEpoch currentUnbondingEpoch
       s epoch =
     fold (UndelegationWorkflow_chain ica generateUndelegateMessages isUnbondingEpoch
             currentUnbondingEpoch epoch)
       (GetAllHostChains s) s"

section \<open>Observations on a state\<close>

text \<open>The chain an event is about, and the recorded calls and events of one chain.\<close>

fun event_chain :: "event \<Rightarrow> chain_id option" where
  "event_chain (EventTypeUnbondingMaturedReceived c _ _) = Some c"
| "event_chain (EventTypeValidatorUnbondingMaturedReceived c _) = Some c"
| "event_chain (EventAutocompoundRewardsReceived c _ _) = Some c"
| "event_chain (EventStakingDepositTransferReceived c _) = Some c"
| "event_chain (EventLSMDepositTransferReceived c _) = Some c"
| "event_chain (EventStakingDepositTransferTimeout c _) = Some c"
| "event_chain (EventLSMDepositTransferTimeout c _) = Some c"
| "event_chain (EventTypeDelegationWorkflow c _ _ _) = Some c"
| "event_chain (EventUnsuccessfulUndelegationInitiation c _) = Some c"
| "event_chain (EventTypeUndelegationWorkflow c _ _ _ _ _) = Some c"
| "event_chain (EventTypeValidatorUndelegationWorkflow c _ _ _ _) = Some c"
| "event_chain (EventTypeRewardsWorkflow c _ _) = Some c"
| "event_chain (EventTypeLSMWorkflow c _) = Some c"
| "event_chain (RouterEvent _) = None"

definition calls_of :: "chain_id \<Rightarrow> keeper_state \<Rightarrow> submission list" where
  "calls_of c s = filter (\<lambda>x. submission_chain x = c) (submissions s)"

definition events_of :: "chain_id \<Rightarrow> keeper_state \<Rightarrow> event list" where
  "events_of c s = filter (\<lambda>x. event_chain x = Some c) (events s)"

text \<open>
  The outcome of the undelegation workflow for the chain \<open>hc\<close> whose unbonding record
  \<open>u\<close> is due, between the state \<open>s0\<close> before the workflow and the state \<open>s'\<close>
  after it; \<open>s1\<close> is the state in which the chain is reached, which the collaborator
  sees. A failed allocation or a failed submission leaves the record FAILED and one
  failure event; a submission that succeeds leaves it INITIATED with the new sequence id.
  In each case the workflow has made at most the one submission for the chain.
\<close>

definition undelegation_outcome ::
  "ica_executor \<Rightarrow> (host_chain \<Rightarrow> int \<Rightarrow> error + remote_msg list) \<Rightarrow> int \<Rightarrow> host_chain
     \<Rightarrow> unbonding \<Rightarrow> keeper_state \<Rightarrow> keeper_state \<Rightarrow> keeper_state \<Rightarrow> bool" where
  "undelegation_outcome ica gen epoch hc u s0 s1 s' =
     (let c = hc_ChainId hc; b = unb_EpochNumber u;
          conn = hc_ConnectionId hc; ow = ica_Owner (hc_DelegationAccount hc)
      in case gen hc (coin_Amount (unb_UnbondAmount u)) of
           Inl err \<Rightarrow>
             GetUnbonding s' c b = Some (u\<lparr>unb_State := UNBONDING_FAILED\<rparr>) \<and>
             calls_of c s' = calls_of c s0 \<and>
             events_of c s' = events_of c s0 @ [EventUnsuccessfulUndelegationInitiation c epoch]
         | Inr messages \<Rightarrow>
             (case ica s1 conn ow messages of
                Inl err \<Rightarrow>
                  GetUnbonding s' c b = Some (u\<lparr>unb_State := UNBONDING_FAILED\<rparr>) \<and>
                  calls_of c s' = calls_of c s0 @ [ICATx c conn ow messages False] \<and>
                  events_of c s' =
                    events_of c s0 @ [EventUnsuccessfulUndelegationInitiation c epoch]
              | Inr sequenceID \<Rightarrow>
                  GetUnbonding s' c b =
                    Some (u\<lparr>unb_IbcSequenceId := sequenceID, unb_State := UNBONDING_INITIATED\<rparr>) \<and>
                  calls_of c s' = calls_of c s0 @ [ICATx c conn ow messages True] \<and>
                  events_of c s' =
                    events_of c s0 @
                    [EventTypeUndelegationWorkflow c epoch
                       (NewCoin (hc_HostDenom hc) (coin_Amount (unb_UnbondAmount u)))
                       (NewCoin (hc_HostDenom hc) (coin_Amount (unb_BurnAmount u)))
                       messages sequenceID]))"

section \<open>Sequence identifiers\<close>

text \<open>
  Modelled from the spec: \<open>GetTransactionSequenceID\<close> is not part of the hook sources.
  The spec: a deterministic string composed from the outbound channel id and the numeric
  packet sequence. The sequence (a \<open>uint64\<close>) is written in decimal after the channel id
  and a dash.
\<close>

definition digit_char :: "nat \<Rightarrow> char" where
  "digit_char n = ''0123456789'' ! n"

function decimal :: "nat \<Rightarrow> string" where
  "decimal n = (if n < 10 then [digit_char n] else decimal (n div 10) @ [digit_char (n mod 10)])"
  by pat_completeness auto
termination
  by (relation "measure (\<lambda>n. n)") auto

declare decimal.simps [simp del]

definition GetTransactionSequenceID :: "string \<Rightarrow> 64 word \<Rightarrow> sequence_id" where
  "GetTransactionSequenceID channelID sequence = channelID @ ''-'' @ decimal (unat sequence)"

section \<open>Deposit workflow\<close>

text \<open>
  The message router is a collaborator: it answers a transfer with an error or with a
  response that carries events and the \<open>MsgTransferResponse\<close>, whose decoding gives the
  packet sequence or fails (\<open>res_Sequence\<close> is then None). The address of the deposit
  module account and the constant \<open>IBCTimeoutTimestamp\<close> are parameters.
\<close>

record router_response =
  res_Events :: "string list"
  res_Sequence :: "64 word option"

type_synonym msg_router = "keeper_state \<Rightarrow> remote_msg \<Rightarrow> error + router_response"

definition EmitEvents :: "event list \<Rightarrow> keeper_state \<Rightarrow> keeper_state" where
  "EmitEvents es s = s\<lparr>events := events s @ es\<rparr>"

text \<open>
  Modelled from the spec: \<open>GetPendingDepositsBeforeEpoch\<close> is not part of the hook
  sources. The spec: the pending deposits whose epoch is at most the current epoch.
\<close>

definition GetPendingDepositsBeforeEpoch :: "keeper_state \<Rightarrow> int \<Rightarrow> deposit list" where
  "GetPendingDepositsBeforeEpoch s epoch =
     filter (\<lambda>d. dep_State d = DEPOSIT_PENDING \<and> dep_Epoch d \<le> epoch) (deposits s)"

definition deposit_transfer_msg :: "string \<Rightarrow> 64 word \<Rightarrow> host_chain \<Rightarrow> deposit \<Rightarrow> keeper_state \<Rightarrow> remote_msg" where
  "deposit_transfer_msg depositModuleAddress ibcTimeout hc deposit s =
     MsgTransfer (hc_ChannelId hc) (dep_Amount deposit) depositModuleAddress
       (ica_Address (hc_DelegationAccount hc)) (blockTimeNanos s + ibcTimeout) []"

definition DepositWorkflow_deposit ::
  "msg_router \<Rightarrow> string \<Rightarrow> 64 word \<Rightarrow> int \<Rightarrow> deposit \<Rightarrow> keeper_state \<Rightarrow> keeper_state" where
  "DepositWorkflow_deposit router depositModuleAddress ibcTimeout epoch deposit s =
     (case GetHostChain s (dep_ChainId deposit) of
        None \<Rightarrow> s
      | Some hc \<Rightarrow>
          if coin_Amount (dep_Amount deposit) \<le> 0
          then (if dep_Epoch deposit < epoch then DeleteDeposit deposit s else s)
          else if \<not> hc_Active hc then s
          else (let msg = deposit_transfer_msg depositModuleAddress ibcTimeout hc deposit s
                in case router s msg of
                     Inl err \<Rightarrow>
                       record_call
                         (DepositTransfer (hc_ChainId hc) (dep_Epoch deposit) msg False) s
                   | Inr res \<Rightarrow>
                       (let s1 = EmitEvents (map RouterEvent (res_Events res))
                                   (record_call
                                      (DepositTransfer (hc_ChainId hc) (dep_Epoch deposit) msg
                                         True) s)
                        in case res_Sequence res of
                             None \<Rightarrow> s1
                           | Some sequence \<Rightarrow>
                               (let sent = deposit
                                      \<lparr>dep_State := DEPOSIT_SENT,
                                       dep_IbcSequenceId :=
                                         GetTransactionSequenceID (hc_ChannelId hc) sequence\<rparr>
                                in EmitEvent
                                     (EventTypeDelegationWorkflow (hc_ChainId hc)
                                        (dep_Epoch sent)
                                        (NewCoin (hc_HostDenom hc) (coin_Amount (dep_Amount sent)))
                                        (dep_IbcSequenceId sent))
                                     (SetDeposit sent s1)))))"

definition DepositWorkflow ::
  "msg_router \<Rightarrow> string \<Rightarrow> 64 word \<Rightarrow> keeper_state \<Rightarrow> int \<Rightarrow> keeper_state" where
  "DepositWorkflow router depositModuleAddress ibcTimeout s epoch =
     fold (DepositWorkflow_deposit router depositModuleAddress ibcTimeout epoch)
       (GetPendingDepositsBeforeEpoch s epoch) s"

text \<open>The transfers recorded for the deposit of a chain and an epoch.\<close>

fun is_deposit_transfer :: "chain_id \<Rightarrow> int \<Rightarrow> submission \<Rightarrow> bool" where
  "is_deposit_transfer c e (DepositTransfer c' e' _ _) = (c' = c \<and> e' = e)"
| "is_deposit_transfer c e _ = False"

definition deposit_transfers :: "chain_id \<Rightarrow> int \<Rightarrow> keeper_state \<Rightarrow> submission list" where
  "deposit_transfers c e s = filter (is_deposit_transfer c e) (submissions s)"

text \<open>The key of a deposit in the store.\<close>

definition deposit_key :: "deposit \<Rightarrow> chain_id \<times> int" where
  "deposit_key d = (dep_ChainId d, dep_Epoch d)"

section \<open>IBC transfer hooks: packets\<close>

text \<open>
  A packet carries its sequence, its channels and its data. The JSON decoding of the data
  and of the acknowledgement is done by the codec, a collaborator, and the model carries
  the outcome: \<open>pkt_Data\<close> is None when the bytes do not decode to a
  \<open>FungibleTokenPacketData\<close>, an acknowledgement is None when its bytes do not decode.
  \<open>sdk.NewIntFromString\<close> is a parameter (\<open>parse\<close>) with None for a string it rejects.
  A handler returns the error, if any, together with the state it has reached.
\<close>

record packet_data =
  ftpd_Denom :: string
  ftpd_Amount :: string
  ftpd_Sender :: string
  ftpd_Receiver :: string
  ftpd_Memo :: string

record packet =
  pkt_Sequence :: "64 word"
  pkt_SourceChannel :: string
  pkt_DestinationPort :: string
  pkt_DestinationChannel :: string
  pkt_Data :: "packet_data option"

datatype acknowledgement = AckResult | AckError

fun ack_Success :: "acknowledgement \<Rightarrow> bool" where
  "ack_Success AckResult = True"
| "ack_Success AckError = False"

subsection \<open>Lookups by sequence id\<close>

text \<open>
  Modelled from the spec: \<open>GetDepositsWithSequenceID\<close>, \<open>GetLSMDepositsFromIbcSequenceID\<close>,
  \<open>UpdateLSMDepositsStateAndSequence\<close>, \<open>RevertDepositsState\<close> and
  \<open>RevertLSMDepositsState\<close> are not part of the hook sources. The spec: the reconciler
  looks up all records carrying the matching sequence id; many tokenized-share records
  sharing one sequence id are settled in a single state update; a timeout reverts the
  matching records to their pending pre-send state, with the sequence id cleared.
\<close>

definition GetDepositsWithSequenceID :: "keeper_state \<Rightarrow> sequence_id \<Rightarrow> deposit list" where
  "GetDepositsWithSequenceID s sid = filter (\<lambda>d. dep_IbcSequenceId d = sid) (deposits s)"

definition GetLSMDepositsFromIbcSequenceID ::
  "keeper_state \<Rightarrow> sequence_id \<Rightarrow> lsm_deposit list" where
  "GetLSMDepositsFromIbcSequenceID s sid =
     filter (\<lambda>d. lsm_IbcSequenceId d = sid) (lsmDeposits s)"

definition UpdateLSMDepositsStateAndSequence ::
  "lsm_deposit list \<Rightarrow> deposit_state \<Rightarrow> sequence_id \<Rightarrow> keeper_state \<Rightarrow> keeper_state" where
  "UpdateLSMDepositsStateAndSequence ds st sid s =
     fold (\<lambda>d. SetLSMDeposit (d\<lparr>lsm_IbcSequenceId := sid, lsm_State := st\<rparr>)) ds s"

definition RevertDepositsState :: "deposit list \<Rightarrow> keeper_state \<Rightarrow> keeper_state" where
  "RevertDepositsState ds s =
     fold (\<lambda>d. SetDeposit (d\<lparr>dep_IbcSequenceId := [], dep_State := DEPOSIT_PENDING\<rparr>)) ds s"

definition RevertLSMDepositsState :: "lsm_deposit list \<Rightarrow> keeper_state \<Rightarrow> keeper_state" where
  "RevertLSMDepositsState ds s =
     fold (\<lambda>d. SetLSMDeposit (d\<lparr>lsm_IbcSequenceId := [], lsm_State := DEPOSIT_PENDING\<rparr>)) ds s"

section \<open>Acknowledgement of an outbound transfer\<close>

definition add_delegation_balance :: "int \<Rightarrow> host_chain \<Rightarrow> host_chain" where
  "add_delegation_balance amount hc =
     hc\<lparr>hc_DelegationAccount :=
          (hc_DelegationAccount hc)
            \<lparr>ica_Balance :=
               \<lparr>coin_Denom = coin_Denom (ica_Balance (hc_DelegationAccount hc)),
                coin_Amount = coin_Amount (ica_Balance (hc_DelegationAccount hc)) + amount\<rparr>\<rparr>\<rparr>"

text \<open>The loop over the deposits that carry the sequence id; an error ends the handler.\<close>

fun ack_deposits ::
  "sequence_id \<Rightarrow> int \<Rightarrow> deposit list \<Rightarrow> keeper_state \<Rightarrow> error option \<times> keeper_state" where
  "ack_deposits sid transferAmount [] s = (None, s)"
| "ack_deposits sid transferAmount (deposit # ds) s =
     (let s1 = SetDeposit (deposit\<lparr>dep_IbcSequenceId := [], dep_State := DEPOSIT_RECEIVED\<rparr>) s
      in case GetHostChain s1 (dep_ChainId deposit) of
           None \<Rightarrow> (Some (ErrHostChainNotRegistered (dep_ChainId deposit)), s1)
         | Some hc \<Rightarrow>
             ack_deposits sid transferAmount ds
               (EmitEvent (EventStakingDepositTransferReceived (hc_ChainId hc) sid)
                  (SetHostChain (add_delegation_balance transferAmount hc) s1)))"

text \<open>The loops that emit one event per record after a state update of many records.\<close>

fun emit_lsm_events ::
  "(chain_id \<Rightarrow> event) \<Rightarrow> lsm_deposit list \<Rightarrow> keeper_state \<Rightarrow> error option \<times> keeper_state" where
  "emit_lsm_events ev [] s = (None, s)"
| "emit_lsm_events ev (lsmDeposit # ds) s =
     (case GetHostChain s (lsm_ChainId lsmDeposit) of
        None \<Rightarrow> (Some (ErrHostChainNotRegistered (lsm_ChainId lsmDeposit)), s)
      | Some hc \<Rightarrow> emit_lsm_events ev ds (EmitEvent (ev (hc_ChainId hc)) s))"

fun emit_deposit_events ::
  "(chain_id \<Rightarrow> event) \<Rightarrow> deposit list \<Rightarrow> keeper_state \<Rightarrow> error option \<times> keeper_state" where
  "emit_deposit_events ev [] s = (None, s)"
| "emit_deposit_events ev (deposit # ds) s =
     (case GetHostChain s (dep_ChainId deposit) of
        None \<Rightarrow> (Some (ErrHostChainNotRegistered (dep_ChainId deposit)), s)
      | Some hc \<Rightarrow> emit_deposit_events ev ds (EmitEvent (ev (hc_ChainId hc)) s))"

definition OnAcknowledgementIBCTransferPacket ::
  "(string \<Rightarrow> int option) \<Rightarrow> string \<Rightarrow> packet \<Rightarrow> acknowledgement option \<Rightarrow> error option
     \<Rightarrow> keeper_state \<Rightarrow> error option \<times> keeper_state" where
  "OnAcknowledgementIBCTransferPacket parse depositModuleAddress packet acknowledgement
       transferAckErr s =
     (case transferAckErr of
        Some err \<Rightarrow> (Some err, s)
      | None \<Rightarrow>
         (case acknowledgement of
            None \<Rightarrow> (Some ErrUnmarshal, s)
          | Some ack \<Rightarrow>
             if \<not> ack_Success ack then (Some ErrInvalidAcknowledgement, s)
             else (case pkt_Data packet of
                     None \<Rightarrow> (Some ErrUnmarshal, s)
                   | Some data \<Rightarrow>
                      (case parse (ftpd_Amount data) of
                         None \<Rightarrow> (Some (ErrParsingAmount (ftpd_Amount data)), s)
                       | Some transferAmount \<Rightarrow>
                          if ftpd_Sender data = depositModuleAddress
                          then (let sid = GetTransactionSequenceID (pkt_SourceChannel packet)
                                            (pkt_Sequence packet)
                                in case ack_deposits sid transferAmount
                                          (GetDepositsWithSequenceID s sid) s of
                                     (Some err, s1) \<Rightarrow> (Some err, s1)
                                   | (None, s1) \<Rightarrow>
                                       (let lsmDeposits = GetLSMDepositsFromIbcSequenceID s1 sid
                                        in emit_lsm_events
                                             (\<lambda>c. EventLSMDepositTransferReceived c sid)
                                             lsmDeposits
                                             (UpdateLSMDepositsStateAndSequence lsmDeposits
                                                DEPOSIT_RECEIVED [] s1)))
                          else (None, s)))))"

section \<open>Timeout of an outbound transfer\<close>

definition OnTimeoutIBCTransferPacket ::
  "string \<Rightarrow> packet \<Rightarrow> error option \<Rightarrow> keeper_state \<Rightarrow> error option \<times> keeper_state" where
  "OnTimeoutIBCTransferPacket depositModuleAddress packet transferTimeoutErr s =
     (case transferTimeoutErr of
        Some err \<Rightarrow> (Some err, s)
      | None \<Rightarrow>
         (case pkt_Data packet of
            None \<Rightarrow> (Some ErrUnmarshal, s)
          | Some data \<Rightarrow>
             if ftpd_Sender data = depositModuleAddress
             then (let sid = GetTransactionSequenceID (pkt_SourceChannel packet)
                               (pkt_Sequence packet);
                       deposits = GetDepositsWithSequenceID s sid
                   in case emit_deposit_events (\<lambda>c. EventStakingDepositTransferTimeout c sid)
                             deposits (RevertDepositsState deposits s) of
                        (Some err, s1) \<Rightarrow> (Some err, s1)
                      | (None, s1) \<Rightarrow>
                          (let lsmDeposits = GetLSMDepositsFromIbcSequenceID s1 sid
                           in emit_lsm_events (\<lambda>c. EventLSMDepositTransferTimeout c sid)
                                lsmDeposits (RevertLSMDepositsState lsmDeposits s1)))
             else (None, s)))"

text \<open>
  The pending pre-send state of a record that carries a sequence id, in the words of the
  spec: PENDING, with the sequence id cleared; a record with another sequence id is as
  before.
\<close>

definition revert_deposit :: "sequence_id \<Rightarrow> deposit \<Rightarrow> deposit" where
  "revert_deposit sid d =
     (if dep_IbcSequenceId d = sid
      then d\<lparr>dep_IbcSequenceId := [], dep_State := DEPOSIT_PENDING\<rparr> else d)"

definition revert_lsm_deposit :: "sequence_id \<Rightarrow> lsm_deposit \<Rightarrow> lsm_deposit" where
  "revert_lsm_deposit sid d =
     (if lsm_IbcSequenceId d = sid
      then d\<lparr>lsm_IbcSequenceId := [], lsm_State := DEPOSIT_PENDING\<rparr> else d)"

(*DEFS-END*)

section \<open>Example states\<close>

definition ex_account :: "string \<Rightarrow> ica_account" where
  "ex_account a =
     \<lparr>ica_Address = a, ica_Owner = a @ ''.owner'',
      ica_Balance = \<lparr>coin_Denom = ''uatom'', coin_Amount = 0\<rparr>,
      ica_ChannelState = ICA_CHANNEL_CREATED\<rparr>"

definition ex_validator :: "string \<Rightarrow> int \<Rightarrow> int \<Rightarrow> validator" where
  "ex_validator a d u =
     \<lparr>val_OperatorAddress = a, val_DelegatedAmount = d, val_Weight = 0, val_UnbondingEpoch = u\<rparr>"

definition ex_chain :: "chain_id \<Rightarrow> bool \<Rightarrow> validator list \<Rightarrow> host_chain" where
  "ex_chain c a vs =
     \<lparr>hc_ChainId = c, hc_Active = a, hc_ChannelId = ''channel-'' @ c,
      hc_ConnectionId = ''connection-'' @ c, hc_HostDenom = ''uatom'',
      hc_IBCDenom = ''ibc/uatom'', hc_DelegationAccount = ex_account (c @ ''.delegation''),
      hc_RewardsAccount = Some (ex_account (c @ ''.rewards'')), hc_Validators = vs,
      hc_UnbondingFactor = 4, hc_RestakeFee = 0, hc_Lsm = False, hc_RewardParams = None,
      hc_CValue = 0\<rparr>"

definition ex_state :: "host_chain list \<Rightarrow> keeper_state" where
  "ex_state hcs =
     \<lparr>hostChains = hcs, deposits = [], lsmDeposits = [], unbondings = [],
      validatorUnbondings = [], redelegateTxs = [], events = [], submissions = [],
      blockTimeNanos = 0, delegationEpoch = 0\<rparr>"

definition ex_ica_ok :: ica_executor where
  "ex_ica_ok s c ow ms = Inr ''seq-1''"

definition ex_ica_fail :: ica_executor where
  "ex_ica_fail s c ow ms = Inl (ErrCollaborator ''ica'')"

definition ex_icq_ok :: icq_sender where
  "ex_icq_ok s hc = None"

definition ex_isUnbondingEpoch :: "int \<Rightarrow> int \<Rightarrow> bool" where
  "ex_isUnbondingEpoch factor epoch = (epoch mod factor = 0)"

definition ex_ica_fail_on :: "string \<Rightarrow> ica_executor" where
  "ex_ica_fail_on c s conn ow ms =
     (if conn = c then Inl (ErrCollaborator ''ica'') else Inr ''seq-1'')"

definition ex_redistribute :: "host_chain \<Rightarrow> validator \<Rightarrow> host_chain" where
  "ex_redistribute hc v = hc"

definition ex_generateRedelegateMsgs :: "keeper_state \<Rightarrow> host_chain \<Rightarrow> remote_msg list" where
  "ex_generateRedelegateMsgs s hc =
     (case hc_Validators hc of
        v1 # v2 # _ \<Rightarrow>
          [MsgBeginRedelegate (ica_Address (hc_DelegationAccount hc)) (val_OperatorAddress v1)
             (val_OperatorAddress v2) (NewCoin (hc_HostDenom hc) 1)]
      | _ \<Rightarrow> [])"

definition ex_currentUnbondingEpoch :: "int \<Rightarrow> int \<Rightarrow> int" where
  "ex_currentUnbondingEpoch factor epoch =
     (if epoch mod factor = 0 then epoch else epoch + factor - epoch mod factor)"

definition ex_generateUndelegateMessages :: "host_chain \<Rightarrow> int \<Rightarrow> error + remote_msg list" where
  "ex_generateUndelegateMessages hc amount =
     (case hc_Validators hc of
        [] \<Rightarrow> Inl (ErrCollaborator ''no validators'')
      | v # _ \<Rightarrow>
          Inr [MsgUndelegate (ica_Address (hc_DelegationAccount hc)) (val_OperatorAddress v)
                 (NewCoin (hc_HostDenom hc) amount)])"

definition ex_unbonding :: "chain_id \<Rightarrow> int \<Rightarrow> int \<Rightarrow> unbonding" where
  "ex_unbonding c e a =
     \<lparr>unb_ChainId = c, unb_EpochNumber = e, unb_UnbondAmount = NewCoin ''uatom'' a,
      unb_BurnAmount = NewCoin ''stk/uatom'' a, unb_State = UNBONDING_PENDING,
      unb_IbcSequenceId = []\<rparr>"

definition ex_undelegation_state :: keeper_state where
  "ex_undelegation_state =
     (ex_state [ex_chain ''A'' True [ex_validator ''v1'' 500 0],
                ex_chain ''B'' True [ex_validator ''v2'' 700 0]])
       \<lparr>unbondings := [ex_unbonding ''A'' 8 100, ex_unbonding ''B'' 8 50]\<rparr>"

definition ex_router_ok :: msg_router where
  "ex_router_ok s msg = Inr \<lparr>res_Events = [], res_Sequence = Some 7\<rparr>"

definition ex_deposit :: "chain_id \<Rightarrow> int \<Rightarrow> int \<Rightarrow> deposit" where
  "ex_deposit c e a =
     \<lparr>dep_ChainId = c, dep_Epoch = e, dep_Amount = NewCoin ''ibc/uatom'' a,
      dep_State = DEPOSIT_PENDING, dep_IbcSequenceId = []\<rparr>"

definition ex_deposit_state :: keeper_state where
  "ex_deposit_state =
     (ex_state [ex_chain ''A'' True []])
       \<lparr>deposits := [ex_deposit ''A'' 3 0, ex_deposit ''A'' 4 1000, ex_deposit ''A'' 5 0]\<rparr>"

definition ex_orphan_deposit_state :: keeper_state where
  "ex_orphan_deposit_state =
     (ex_state [ex_chain ''A'' True []])\<lparr>deposits := [ex_deposit ''X'' 3 0]\<rparr>"

definition ex_packet :: "64 word \<Rightarrow> string \<Rightarrow> string \<Rightarrow> packet" where
  "ex_packet sequence amount sender =
     \<lparr>pkt_Sequence = sequence, pkt_SourceChannel = ''channel-A'',
      pkt_DestinationPort = ''transfer'', pkt_DestinationChannel = ''channel-0'',
      pkt_Data = Some \<lparr>ftpd_Denom = ''ibc/uatom'', ftpd_Amount = amount, ftpd_Sender = sender,
                        ftpd_Receiver = ''A.delegation'', ftpd_Memo = []\<rparr>\<rparr>"

definition ex_sent_deposit :: "chain_id \<Rightarrow> int \<Rightarrow> int \<Rightarrow> sequence_id \<Rightarrow> deposit" where
  "ex_sent_deposit c e a sid =
     \<lparr>dep_ChainId = c, dep_Epoch = e, dep_Amount = NewCoin ''ibc/uatom'' a,
      dep_State = DEPOSIT_SENT, dep_IbcSequenceId = sid\<rparr>"

definition ex_lsm_deposit :: "string \<Rightarrow> chain_id \<Rightarrow> int \<Rightarrow> deposit_state \<Rightarrow> sequence_id \<Rightarrow> lsm_deposit" where
  "ex_lsm_deposit i c a st sid =
     \<lparr>lsm_Id = i, lsm_ChainId = c, lsm_IbcDenom = ''ibc/shares'', lsm_Shares = a,
      lsm_State = st, lsm_IbcSequenceId = sid\<rparr>"

definition ex_inflight_state :: keeper_state where
  "ex_inflight_state =
     (ex_state [ex_chain ''A'' True []])
       \<lparr>deposits := [ex_sent_deposit ''A'' 5 1000 ''channel-A-7'',
                      ex_sent_deposit ''A'' 6 20 ''channel-A-8''],
        lsmDeposits := [ex_lsm_deposit ''lsm-1'' ''A'' 300 DEPOSIT_SENT ''channel-A-9'']\<rparr>"

definition ex_parse :: "string \<Rightarrow> int option" where
  "ex_parse a =
     (if a = ''1000'' then Some 1000 else if a = ''500'' then Some 500
      else if a = ''300'' then Some 300 else None)"

(*EXAMPLES-END*)

section \<open>Rewards workflow: no empty batch\<close>

lemma withdraw_reward_messages_nonempty:
  "withdraw_reward_messages hc vs \<noteq> [] \<Longrightarrow> \<exists>v\<in>set vs. 0 < val_DelegatedAmount v"
  by (induction vs) (auto split: if_splits)

lemma rewards_submit_calls:
  "\<exists>cs. submissions (fst (rewards_submit ica epoch hc s)) = submissions s @ cs \<and>
        (\<forall>c\<in>set cs. hc_Active hc \<longrightarrow> rewards_call_ok hc c)"
  by (auto simp: rewards_submit_def GenerateAndExecuteICATx_def record_call_def EmitEvent_def
      rewards_call_ok_def Let_def withdraw_reward_messages_nonempty split: sum.splits)

lemma rewards_queries_calls:
  "\<exists>cs. submissions (rewards_queries qn qr hc s) = submissions s @ cs \<and>
        (\<forall>c\<in>set cs. rewards_call_ok hc c)"
  by (auto simp: rewards_queries_def record_call_def rewards_call_ok_def Let_def
      split: option.splits)

lemma RewardsWorkflow_chain_calls:
  "\<exists>cs. submissions (RewardsWorkflow_chain ica qn qr epoch hc s) = submissions s @ cs \<and>
        (\<forall>c\<in>set cs. rewards_call_ok hc c)"
proof (cases "hc_Active hc")
  case False
  then show ?thesis by (simp add: RewardsWorkflow_chain_def)
next
  case True
  obtain s1 b where r: "rewards_submit ica epoch hc s = (s1, b)" by force
  from rewards_submit_calls [of ica epoch hc s] r True
  obtain cs where cs: "submissions s1 = submissions s @ cs" "\<forall>c\<in>set cs. rewards_call_ok hc c"
    by auto
  from rewards_queries_calls [of qn qr hc s1]
  obtain ds where ds: "submissions (rewards_queries qn qr hc s1) = submissions s1 @ ds"
    "\<forall>c\<in>set ds. rewards_call_ok hc c" by auto
  show ?thesis
  proof (cases b)
    case True
    with r \<open>hc_Active hc\<close> cs show ?thesis by (simp add: RewardsWorkflow_chain_def)
  next
    case False
    with r \<open>hc_Active hc\<close> cs ds show ?thesis by (auto simp: RewardsWorkflow_chain_def)
  qed
qed

lemma RewardsWorkflow_fold_calls:
  "\<exists>cs. submissions (fold (RewardsWorkflow_chain ica qn qr epoch) hcs s) = submissions s @ cs \<and>
        (\<forall>c\<in>set cs. \<exists>hc\<in>set hcs. rewards_call_ok hc c)"
proof (induction hcs arbitrary: s)
  case Nil
  then show ?case by simp
next
  case (Cons hc hcs)
  from RewardsWorkflow_chain_calls [of ica qn qr epoch hc s]
  obtain cs where cs: "submissions (RewardsWorkflow_chain ica qn qr epoch hc s) = submissions s @ cs"
    "\<forall>c\<in>set cs. rewards_call_ok hc c" by auto
  from Cons.IH [of "RewardsWorkflow_chain ica qn qr epoch hc s"]
  obtain ds where ds: "submissions (fold (RewardsWorkflow_chain ica qn qr epoch) hcs
      (RewardsWorkflow_chain ica qn qr epoch hc s))
      = submissions (RewardsWorkflow_chain ica qn qr epoch hc s) @ ds"
    "\<forall>c\<in>set ds. \<exists>hc\<in>set hcs. rewards_call_ok hc c" by auto
  have "submissions (fold (RewardsWorkflow_chain ica qn qr epoch) (hc # hcs) s)
      = submissions s @ (cs @ ds)" using cs ds by simp
  moreover have "\<forall>c\<in>set (cs @ ds). \<exists>h\<in>set (hc # hcs). rewards_call_ok h c"
    using cs ds by auto
  ultimately show ?case by blast
qed

text \<open>
  C10. In the rewards workflow, an active host chain none of whose validators has a
  strictly positive delegated amount gets no batch transaction: among the calls the
  workflow adds, no interchain-account transaction belongs to that chain (the submission
  is skipped, not made with an empty message list). Chain ids are the keys of the
  registry, hence distinct.
\<close>

theorem rewards_no_empty_batch:
  assumes "hc \<in> set (hostChains s)"
    and "hc_Active hc"
    and "\<forall>v\<in>set (hc_Validators hc). \<not> 0 < val_DelegatedAmount v"
    and "distinct (map hc_ChainId (hostChains s))"
  shows "\<forall>c\<in>set (new_calls s (RewardsWorkflow ica qn qr s epoch)).
           is_ICATx c \<longrightarrow> submission_chain c \<noteq> hc_ChainId hc"
proof (intro ballI impI)
  fix c
  assume c: "c \<in> set (new_calls s (RewardsWorkflow ica qn qr s epoch))" and i: "is_ICATx c"
  from RewardsWorkflow_fold_calls [of ica qn qr epoch "hostChains s" s]
  obtain cs where cs: "submissions (RewardsWorkflow ica qn qr s epoch) = submissions s @ cs"
    "\<forall>c\<in>set cs. \<exists>h\<in>set (hostChains s). rewards_call_ok h c"
    by (auto simp: RewardsWorkflow_def GetAllHostChains_def)
  from c cs have "c \<in> set cs" by (simp add: new_calls_def)
  with cs obtain h where h: "h \<in> set (hostChains s)" "rewards_call_ok h c" by blast
  with i have hc: "submission_chain c = hc_ChainId h"
    "\<exists>v\<in>set (hc_Validators h). 0 < val_DelegatedAmount v"
    by (auto simp: rewards_call_ok_def)
  show "submission_chain c \<noteq> hc_ChainId hc"
  proof
    assume "submission_chain c = hc_ChainId hc"
    with hc have "hc_ChainId h = hc_ChainId hc" by simp
    with assms(1,4) h(1) have "h = hc"
      by (simp add: inj_on_eq_iff [OF distinct_map [THEN iffD1, THEN conjunct2]])
    with hc assms(3) show False by blast
  qed
qed

theorem rewards_no_empty_batch_witness:
  "ex_chain ''B'' True [ex_validator ''v2'' 0 0]
     \<in> set (hostChains (ex_state [ex_chain ''A'' True [ex_validator ''v1'' 5 0],
                                  ex_chain ''B'' True [ex_validator ''v2'' 0 0]])) \<and>
   hc_Active (ex_chain ''B'' True [ex_validator ''v2'' 0 0]) \<and>
   list_all (\<lambda>v. \<not> 0 < val_DelegatedAmount v)
     (hc_Validators (ex_chain ''B'' True [ex_validator ''v2'' 0 0])) \<and>
   distinct (map hc_ChainId (hostChains (ex_state [ex_chain ''A'' True [ex_validator ''v1'' 5 0],
                                  ex_chain ''B'' True [ex_validator ''v2'' 0 0]]))) \<and>
   filter (\<lambda>c. is_ICATx c \<and> submission_chain c = ''B'')
     (new_calls (ex_state [ex_chain ''A'' True [ex_validator ''v1'' 5 0],
                           ex_chain ''B'' True [ex_validator ''v2'' 0 0]])
       (RewardsWorkflow ex_ica_ok ex_icq_ok ex_icq_ok
          (ex_state [ex_chain ''A'' True [ex_validator ''v1'' 5 0],
                     ex_chain ''B'' True [ex_validator ''v2'' 0 0]]) 7)) = [] \<and>
   map submission_chain
     (new_calls (ex_state [ex_chain ''A'' True [ex_validator ''v1'' 5 0],
                           ex_chain ''B'' True [ex_validator ''v2'' 0 0]])
       (RewardsWorkflow ex_ica_ok ex_icq_ok ex_icq_ok
          (ex_state [ex_chain ''A'' True [ex_validator ''v1'' 5 0],
                     ex_chain ''B'' True [ex_validator ''v2'' 0 0]]) 7))
     = [''A'', ''A'', ''B'']"
proof -
  have a: "ex_chain ''B'' True [ex_validator ''v2'' 0 0]
     \<in> set (hostChains (ex_state [ex_chain ''A'' True [ex_validator ''v1'' 5 0],
                                  ex_chain ''B'' True [ex_validator ''v2'' 0 0]]))"
    by (simp add: ex_state_def)
  have b: "hc_Active (ex_chain ''B'' True [ex_validator ''v2'' 0 0])"
    by (simp add: ex_chain_def)
  have c: "\<forall>v\<in>set (hc_Validators (ex_chain ''B'' True [ex_validator ''v2'' 0 0])).
      \<not> 0 < val_DelegatedAmount v"
    by (simp add: ex_chain_def ex_validator_def)
  have d: "distinct (map hc_ChainId (hostChains (ex_state
      [ex_chain ''A'' True [ex_validator ''v1'' 5 0],
       ex_chain ''B'' True [ex_validator ''v2'' 0 0]])))"
    by (simp add: ex_state_def ex_chain_def)
  have e: "hc_ChainId (ex_chain ''B'' True [ex_validator ''v2'' 0 0]) = ''B''"
    by (simp add: ex_chain_def)
  have f: "map submission_chain
     (new_calls (ex_state [ex_chain ''A'' True [ex_validator ''v1'' 5 0],
                           ex_chain ''B'' True [ex_validator ''v2'' 0 0]])
       (RewardsWorkflow ex_ica_ok ex_icq_ok ex_icq_ok
          (ex_state [ex_chain ''A'' True [ex_validator ''v1'' 5 0],
                     ex_chain ''B'' True [ex_validator ''v2'' 0 0]]) 7))
     = [''A'', ''A'', ''B'']"
    by (simp add: new_calls_def RewardsWorkflow_def GetAllHostChains_def
        RewardsWorkflow_chain_def rewards_submit_def rewards_queries_def
        GenerateAndExecuteICATx_def record_call_def EmitEvent_def ex_state_def ex_chain_def
        ex_validator_def ex_account_def ex_ica_ok_def ex_icq_ok_def Let_def)
  from rewards_no_empty_batch [OF a b c d, of ex_ica_ok ex_icq_ok ex_icq_ok 7]
  have "filter (\<lambda>c. is_ICATx c \<and> submission_chain c = ''B'')
     (new_calls (ex_state [ex_chain ''A'' True [ex_validator ''v1'' 5 0],
                           ex_chain ''B'' True [ex_validator ''v2'' 0 0]])
       (RewardsWorkflow ex_ica_ok ex_icq_ok ex_icq_ok
          (ex_state [ex_chain ''A'' True [ex_validator ''v1'' 5 0],
                     ex_chain ''B'' True [ex_validator ''v2'' 0 0]]) 7)) = []"
    unfolding e by (auto simp: filter_empty_conv)
  with a b c d f show ?thesis by (simp add: list_all_iff)
qed

lemmas ex_defs = ex_state_def ex_chain_def ex_validator_def ex_account_def ex_ica_ok_def
  ex_currentUnbondingEpoch_def ex_generateUndelegateMessages_def ex_unbonding_def
  ex_undelegation_state_def ex_router_ok_def ex_deposit_def ex_deposit_state_def
  ex_orphan_deposit_state_def ex_packet_def ex_sent_deposit_def ex_lsm_deposit_def
  ex_inflight_state_def ex_parse_def
  ex_ica_fail_def ex_icq_ok_def ex_isUnbondingEpoch_def ex_ica_fail_on_def ex_redistribute_def
  ex_generateRedelegateMsgs_def

section \<open>Validator undelegation workflow: a failed submission ends the workflow\<close>

text \<open>
  What the code does when the submission for a validator fails: the state reached at the
  failure is the result of the whole workflow, whatever host chains remain.
\<close>

lemma validator_undelegation_failure_returns:
  assumes "hc_Active hc"
    and "isUnbondingEpoch (hc_UnbondingFactor hc) epoch"
    and "validator_undelegation_loop ica redistribute limit epoch hc (hc_Validators hc) s
           = (s1, True)"
  shows "validator_undelegation_chains ica redistribute isUnbondingEpoch limit epoch (hc # hcs) s
           = s1"
  using assms by simp

text \<open>
  C8. The claim: when the force-undelegation submission fails for a validator, only the rest
  of that chain's pass is aborted and the workflow goes on to the remaining host chains.
  The code at two active chains A and B on an unbonding epoch, each with one validator due
  for forced unbonding, where the submission fails for A and would succeed for B: the only
  call of the run is the failed one for A, and B is never processed, although B on its own
  is processed with the same collaborators.
\<close>

theorem validator_undelegation_failure_skips_remaining_chains:
  "new_calls (ex_state [ex_chain ''A'' True [ex_validator ''v1'' 5 1],
                        ex_chain ''B'' True [ex_validator ''v2'' 7 1]])
     (ValidatorUndelegationWorkflow (ex_ica_fail_on ''connection-A'') ex_redistribute
        ex_isUnbondingEpoch 2
        (ex_state [ex_chain ''A'' True [ex_validator ''v1'' 5 1],
                   ex_chain ''B'' True [ex_validator ''v2'' 7 1]]) 8)
   = [ICATx ''A'' ''connection-A'' ''A.delegation.owner''
        [MsgUndelegate ''A.delegation'' ''v1'' (NewCoin ''uatom'' 5)] False] \<and>
   new_calls (ex_state [ex_chain ''B'' True [ex_validator ''v2'' 7 1]])
     (ValidatorUndelegationWorkflow (ex_ica_fail_on ''connection-A'') ex_redistribute
        ex_isUnbondingEpoch 2
        (ex_state [ex_chain ''B'' True [ex_validator ''v2'' 7 1]]) 8)
   = [ICATx ''B'' ''connection-B'' ''B.delegation.owner''
        [MsgUndelegate ''B.delegation'' ''v2'' (NewCoin ''uatom'' 7)] True]"
  by (simp add: new_calls_def ValidatorUndelegationWorkflow_def GetAllHostChains_def
      GenerateAndExecuteICATx_def record_call_def Let_def ex_defs EmitEvent_def SetHostChain_def
      SetValidatorUnbonding_def)

section \<open>Rebalance workflow and inactive chains\<close>

text \<open>
  C1. The claim: no workflow generates an outbound message for a host chain whose Active
  flag is false. The rebalance workflow has no check of the flag: at an inactive chain A
  with two validators, on an epoch that is not an unbonding epoch, with an allocation
  function that proposes one move, the workflow submits the redelegation for A.
\<close>

theorem rebalance_submits_for_inactive_chain:
  "\<not> hc_Active (ex_chain ''A'' False [ex_validator ''v1'' 9 0, ex_validator ''v2'' 1 0]) \<and>
   new_calls (ex_state [ex_chain ''A'' False [ex_validator ''v1'' 9 0, ex_validator ''v2'' 1 0]])
     (RebalanceWorkflow ex_ica_ok ex_generateRedelegateMsgs ex_isUnbondingEpoch
        (ex_state [ex_chain ''A'' False [ex_validator ''v1'' 9 0, ex_validator ''v2'' 1 0]]) 7)
   = [ICATx ''A'' ''connection-A'' ''A.delegation.owner''
        [MsgBeginRedelegate ''A.delegation'' ''v1'' ''v2'' (NewCoin ''uatom'' 1)] True]"
  by (simp add: new_calls_def RebalanceWorkflow_def RebalanceWorkflow_chain_def
      rebalance_submit_def GetAllHostChains_def SetRedelegationTx_def
      GenerateAndExecuteICATx_def record_call_def Let_def ex_defs)

section \<open>Undelegation workflow: failure and success of one chain\<close>

lemma find_upsert_same: "same x \<Longrightarrow> find same (upsert same x ys) = Some x"
  by (induction ys) auto

lemma find_upsert_other:
  "\<not> P x \<Longrightarrow> (\<And>y. same y \<Longrightarrow> \<not> P y) \<Longrightarrow> find P (upsert same x ys) = find P ys"
  by (induction ys) auto

lemma GetUnbonding_key:
  "GetUnbonding s c e = Some u \<Longrightarrow> unb_ChainId u = c \<and> unb_EpochNumber u = e"
  by (auto simp: GetUnbonding_def find_Some_iff)

lemma GetUnbonding_SetUnbonding_same:
  assumes "unb_ChainId u = c" and "unb_EpochNumber u = e"
  shows "GetUnbonding (SetUnbonding u s) c e = Some u"
proof -
  have "same_unbonding u = (\<lambda>y. unb_ChainId y = c \<and> unb_EpochNumber y = e)"
    using assms by (auto simp: same_unbonding_def fun_eq_iff)
  moreover have "same_unbonding u u" by (simp add: same_unbonding_def)
  ultimately show ?thesis
    using find_upsert_same [of "same_unbonding u" u "unbondings s"]
    by (simp add: GetUnbonding_def SetUnbonding_def)
qed

lemma GetUnbonding_SetUnbonding_other:
  assumes "unb_ChainId u \<noteq> c"
  shows "GetUnbonding (SetUnbonding u s) c e = GetUnbonding s c e"
proof -
  have "find (\<lambda>y. unb_ChainId y = c \<and> unb_EpochNumber y = e)
          (upsert (same_unbonding u) u (unbondings s))
        = find (\<lambda>y. unb_ChainId y = c \<and> unb_EpochNumber y = e) (unbondings s)"
    using assms by (intro find_upsert_other) (auto simp: same_unbonding_def)
  then show ?thesis by (simp add: GetUnbonding_def SetUnbonding_def)
qed

lemma undelegation_chain_other:
  assumes "hc_ChainId h \<noteq> c"
  shows "GetUnbonding (UndelegationWorkflow_chain ica gen isU cur epoch h s) c e = GetUnbonding s c e \<and>
         calls_of c (UndelegationWorkflow_chain ica gen isU cur epoch h s) = calls_of c s \<and>
         events_of c (UndelegationWorkflow_chain ica gen isU cur epoch h s) = events_of c s"
proof (cases "GetUnbonding s (hc_ChainId h) (cur (hc_UnbondingFactor h) epoch)")
  case None
  then show ?thesis by (simp add: UndelegationWorkflow_chain_def)
next
  case (Some u)
  from GetUnbonding_key [OF Some] assms have k: "unb_ChainId u \<noteq> c" by simp
  have g: "\<And>st sq t. GetUnbonding (SetUnbonding (u\<lparr>unb_IbcSequenceId := sq, unb_State := st\<rparr>) t) c e
      = GetUnbonding t c e" "\<And>st t. GetUnbonding (SetUnbonding (u\<lparr>unb_State := st\<rparr>) t) c e
      = GetUnbonding t c e"
    using k by (simp_all add: GetUnbonding_SetUnbonding_other)
  show ?thesis using Some assms g
    by (auto simp: UndelegationWorkflow_chain_def undelegation_failed_def
        undelegation_initiated_def GenerateAndExecuteICATx_def record_call_def EmitEvent_def
        calls_of_def events_of_def GetUnbonding_def SetUnbonding_def Let_def
        split: sum.splits)
qed

lemma undelegation_fold_other:
  assumes "\<forall>h\<in>set hs. hc_ChainId h \<noteq> c"
  shows "GetUnbonding (fold (UndelegationWorkflow_chain ica gen isU cur epoch) hs s) c e = GetUnbonding s c e \<and>
         calls_of c (fold (UndelegationWorkflow_chain ica gen isU cur epoch) hs s) = calls_of c s \<and>
         events_of c (fold (UndelegationWorkflow_chain ica gen isU cur epoch) hs s) = events_of c s"
  using assms
proof (induction hs arbitrary: s)
  case Nil
  then show ?case by simp
next
  case (Cons h hs)
  then show ?case using undelegation_chain_other [of h c ica gen isU cur epoch s e] by simp
qed


lemma GetUnbonding_frame [simp]:
  "GetUnbonding (EmitEvent ev s) c e = GetUnbonding s c e"
  "GetUnbonding (record_call x s) c e = GetUnbonding s c e"
  by (simp_all add: GetUnbonding_def EmitEvent_def record_call_def)

lemma calls_of_frame [simp]:
  "calls_of c (EmitEvent ev s) = calls_of c s"
  "calls_of c (SetUnbonding u s) = calls_of c s"
  "calls_of c (record_call x s) = calls_of c s @ (if submission_chain x = c then [x] else [])"
  by (simp_all add: calls_of_def EmitEvent_def record_call_def SetUnbonding_def)

lemma events_of_frame [simp]:
  "events_of c (EmitEvent ev s) = events_of c s @ (if event_chain ev = Some c then [ev] else [])"
  "events_of c (SetUnbonding u s) = events_of c s"
  "events_of c (record_call x s) = events_of c s"
  by (simp_all add: events_of_def EmitEvent_def record_call_def SetUnbonding_def)

lemma undelegation_outcome_cong:
  assumes "undelegation_outcome ica gen epoch hc u s0 s1 s'"
    and "GetUnbonding t' (hc_ChainId hc) (unb_EpochNumber u)
           = GetUnbonding s' (hc_ChainId hc) (unb_EpochNumber u)"
    and "calls_of (hc_ChainId hc) t' = calls_of (hc_ChainId hc) s'"
    and "events_of (hc_ChainId hc) t' = events_of (hc_ChainId hc) s'"
    and "calls_of (hc_ChainId hc) t0 = calls_of (hc_ChainId hc) s0"
    and "events_of (hc_ChainId hc) t0 = events_of (hc_ChainId hc) s0"
  shows "undelegation_outcome ica gen epoch hc u t0 s1 t'"
  using assms by (auto simp: undelegation_outcome_def Let_def split: sum.splits)

lemma undelegation_chain_self:
  assumes "hc_Active hc"
    and "isU (hc_UnbondingFactor hc) epoch"
    and rec: "GetUnbonding s1 (hc_ChainId hc) (cur (hc_UnbondingFactor hc) epoch) = Some u"
    and "0 < coin_Amount (unb_UnbondAmount u)"
  shows "undelegation_outcome ica gen epoch hc u s1 s1
           (UndelegationWorkflow_chain ica gen isU cur epoch hc s1)"
proof -
  from GetUnbonding_key [OF rec]
  have k: "unb_ChainId u = hc_ChainId hc" "unb_EpochNumber u = cur (hc_UnbondingFactor hc) epoch"
    by simp_all
  have g: "\<And>st sq t. GetUnbonding (SetUnbonding (u\<lparr>unb_IbcSequenceId := sq, unb_State := st\<rparr>) t)
      (hc_ChainId hc) (unb_EpochNumber u) = Some (u\<lparr>unb_IbcSequenceId := sq, unb_State := st\<rparr>)"
    "\<And>st t. GetUnbonding (SetUnbonding (u\<lparr>unb_State := st\<rparr>) t) (hc_ChainId hc) (unb_EpochNumber u)
      = Some (u\<lparr>unb_State := st\<rparr>)"
    using k by (simp_all add: GetUnbonding_SetUnbonding_same)
  show ?thesis
    using assms g
    by (simp add: undelegation_outcome_def UndelegationWorkflow_chain_def
        undelegation_failed_def undelegation_initiated_def GenerateAndExecuteICATx_def Let_def
        split: sum.splits)
qed

text \<open>
  C6. In the undelegation workflow, for a chain whose unbonding record of the epoch exists
  with a positive amount (the chain active, the epoch an unbonding epoch of the chain):
  the workflow is the loop over the chains before it, the step of this chain and the loop
  over the chains after it, so the remaining chains are processed whatever the step did;
  and in the state after the whole workflow, when generating the messages or submitting
  the transaction failed, the record is FAILED, one failure event of the chain was emitted
  and no further submission was made for the chain (no retry); when both succeeded the
  record is INITIATED and carries the new sequence id.
\<close>

theorem undelegation_record_outcome:
  assumes hcs: "hostChains s = pre @ hc # post"
    and dist: "distinct (map hc_ChainId (hostChains s))"
    and act: "hc_Active hc"
    and isU: "isU (hc_UnbondingFactor hc) epoch"
    and rec: "GetUnbonding s (hc_ChainId hc) (cur (hc_UnbondingFactor hc) epoch) = Some u"
    and pos: "0 < coin_Amount (unb_UnbondAmount u)"
  shows "UndelegationWorkflow ica gen isU cur s epoch
           = fold (UndelegationWorkflow_chain ica gen isU cur epoch) post
               (UndelegationWorkflow_chain ica gen isU cur epoch hc
                  (fold (UndelegationWorkflow_chain ica gen isU cur epoch) pre s)) \<and>
         undelegation_outcome ica gen epoch hc u s
           (fold (UndelegationWorkflow_chain ica gen isU cur epoch) pre s)
           (UndelegationWorkflow ica gen isU cur s epoch)"
proof -
  let ?step = "UndelegationWorkflow_chain ica gen isU cur epoch"
  let ?c = "hc_ChainId hc"
  let ?s1 = "fold ?step pre s"
  let ?s2 = "?step hc ?s1"
  let ?final = "UndelegationWorkflow ica gen isU cur s epoch"
  have final: "?final = fold ?step post ?s2"
    by (simp add: UndelegationWorkflow_def GetAllHostChains_def hcs)
  from dist hcs have "?c \<notin> hc_ChainId ` set pre" and "?c \<notin> hc_ChainId ` set post"
    by auto
  then have pre: "\<forall>h\<in>set pre. hc_ChainId h \<noteq> ?c"
    and post: "\<forall>h\<in>set post. hc_ChainId h \<noteq> ?c" by (auto simp: image_iff)
  note p1 = undelegation_fold_other [OF pre, of ica gen isU cur epoch s]
  note p2 = undelegation_fold_other [OF post, of ica gen isU cur epoch ?s2]
  from p1 rec have rec1: "GetUnbonding ?s1 ?c (cur (hc_UnbondingFactor hc) epoch) = Some u"
    by simp
  from GetUnbonding_key [OF rec] have b: "unb_EpochNumber u = cur (hc_UnbondingFactor hc) epoch"
    by simp
  from undelegation_chain_self [where isU = isU and cur = cur and hc = hc and epoch = epoch
      and ica = ica and gen = gen and u = u, OF act isU rec1 pos]
  have "undelegation_outcome ica gen epoch hc u ?s1 ?s1 ?s2" .
  then have "undelegation_outcome ica gen epoch hc u s ?s1 (fold ?step post ?s2)"
    using p1 p2 by (elim undelegation_outcome_cong) simp_all
  with final show ?thesis by simp
qed

theorem undelegation_record_outcome_witness:
  "hostChains ex_undelegation_state
     = [] @ ex_chain ''A'' True [ex_validator ''v1'' 500 0]
          # [ex_chain ''B'' True [ex_validator ''v2'' 700 0]] \<and>
   distinct (map hc_ChainId (hostChains ex_undelegation_state)) \<and>
   hc_Active (ex_chain ''A'' True [ex_validator ''v1'' 500 0]) \<and>
   ex_isUnbondingEpoch (hc_UnbondingFactor (ex_chain ''A'' True [ex_validator ''v1'' 500 0])) 8 \<and>
   GetUnbonding ex_undelegation_state (hc_ChainId (ex_chain ''A'' True [ex_validator ''v1'' 500 0]))
     (ex_currentUnbondingEpoch
        (hc_UnbondingFactor (ex_chain ''A'' True [ex_validator ''v1'' 500 0])) 8)
     = Some (ex_unbonding ''A'' 8 100) \<and>
   0 < coin_Amount (unb_UnbondAmount (ex_unbonding ''A'' 8 100)) \<and>
   GetUnbonding
     (UndelegationWorkflow (ex_ica_fail_on ''connection-A'') ex_generateUndelegateMessages
        ex_isUnbondingEpoch ex_currentUnbondingEpoch ex_undelegation_state 8) ''A'' 8
     = Some ((ex_unbonding ''A'' 8 100)\<lparr>unb_State := UNBONDING_FAILED\<rparr>) \<and>
   calls_of ''A''
     (UndelegationWorkflow (ex_ica_fail_on ''connection-A'') ex_generateUndelegateMessages
        ex_isUnbondingEpoch ex_currentUnbondingEpoch ex_undelegation_state 8)
     = [ICATx ''A'' ''connection-A'' ''A.delegation.owner''
          [MsgUndelegate ''A.delegation'' ''v1'' (NewCoin ''uatom'' 100)] False] \<and>
   events_of ''A''
     (UndelegationWorkflow (ex_ica_fail_on ''connection-A'') ex_generateUndelegateMessages
        ex_isUnbondingEpoch ex_currentUnbondingEpoch ex_undelegation_state 8)
     = [EventUnsuccessfulUndelegationInitiation ''A'' 8] \<and>
   GetUnbonding
     (UndelegationWorkflow (ex_ica_fail_on ''connection-A'') ex_generateUndelegateMessages
        ex_isUnbondingEpoch ex_currentUnbondingEpoch ex_undelegation_state 8) ''B'' 8
     = Some ((ex_unbonding ''B'' 8 50)
               \<lparr>unb_IbcSequenceId := ''seq-1'', unb_State := UNBONDING_INITIATED\<rparr>)"
proof -
  let ?A = "ex_chain ''A'' True [ex_validator ''v1'' 500 0]"
  let ?B = "ex_chain ''B'' True [ex_validator ''v2'' 700 0]"
  let ?final = "UndelegationWorkflow (ex_ica_fail_on ''connection-A'')
     ex_generateUndelegateMessages ex_isUnbondingEpoch ex_currentUnbondingEpoch
     ex_undelegation_state 8"
  have h1: "hostChains ex_undelegation_state = [] @ ?A # [?B]"
    by (simp add: ex_undelegation_state_def ex_state_def)
  have h2: "distinct (map hc_ChainId (hostChains ex_undelegation_state))"
    by (simp add: ex_undelegation_state_def ex_state_def ex_chain_def)
  have h3: "hc_Active ?A" by (simp add: ex_chain_def)
  have h4: "ex_isUnbondingEpoch (hc_UnbondingFactor ?A) 8"
    by (simp add: ex_chain_def ex_isUnbondingEpoch_def)
  have h5: "GetUnbonding ex_undelegation_state (hc_ChainId ?A)
      (ex_currentUnbondingEpoch (hc_UnbondingFactor ?A) 8) = Some (ex_unbonding ''A'' 8 100)"
    by (simp add: GetUnbonding_def ex_defs)
  have h6: "0 < coin_Amount (unb_UnbondAmount (ex_unbonding ''A'' 8 100))"
    by (simp add: ex_unbonding_def NewCoin_def)
  note o = undelegation_record_outcome [where ica = "ex_ica_fail_on ''connection-A''"
      and gen = ex_generateUndelegateMessages and isU = ex_isUnbondingEpoch
      and cur = ex_currentUnbondingEpoch, OF h1 h2 h3 h4 h5 h6, THEN conjunct2]
  from o have a: "GetUnbonding ?final ''A'' 8
       = Some ((ex_unbonding ''A'' 8 100)\<lparr>unb_State := UNBONDING_FAILED\<rparr>) \<and>
     calls_of ''A'' ?final
       = [ICATx ''A'' ''connection-A'' ''A.delegation.owner''
            [MsgUndelegate ''A.delegation'' ''v1'' (NewCoin ''uatom'' 100)] False] \<and>
     events_of ''A'' ?final = [EventUnsuccessfulUndelegationInitiation ''A'' 8]"
    by (simp add: undelegation_outcome_def Let_def calls_of_def events_of_def NewCoin_def
        ex_defs)
  have b: "GetUnbonding ?final ''B'' 8
     = Some ((ex_unbonding ''B'' 8 50)
               \<lparr>unb_IbcSequenceId := ''seq-1'', unb_State := UNBONDING_INITIATED\<rparr>)"
    by (simp add: UndelegationWorkflow_def UndelegationWorkflow_chain_def GetAllHostChains_def
      GetUnbonding_def SetUnbonding_def same_unbonding_def undelegation_failed_def
      undelegation_initiated_def GenerateAndExecuteICATx_def record_call_def EmitEvent_def
      Let_def NewCoin_def ex_defs)
  from h1 h2 h3 h4 h5 h6 a b show ?thesis by blast
qed

section \<open>Deposit workflow: pruning of empty deposits\<close>

lemma find_filter_other: "(\<And>y. P y \<Longrightarrow> Q y) \<Longrightarrow> find P (filter Q ys) = find P ys"
  by (induction ys) auto

lemma find_distinct_key:
  "distinct (map key xs) \<Longrightarrow> d \<in> set xs \<Longrightarrow> find (\<lambda>y. key y = key d) xs = Some d"
  by (induction xs) (auto simp: image_iff)

lemma GetHostChain_key: "GetHostChain s c = Some hc \<Longrightarrow> hc_ChainId hc = c"
  by (auto simp: GetHostChain_def find_Some_iff)

lemma GetDeposit_SetDeposit_other:
  assumes "deposit_key x \<noteq> (c, e)"
  shows "GetDepositForChainAndEpoch (SetDeposit x s) c e = GetDepositForChainAndEpoch s c e"
proof -
  have "find (\<lambda>y. dep_ChainId y = c \<and> dep_Epoch y = e) (upsert (same_deposit x) x (deposits s))
        = find (\<lambda>y. dep_ChainId y = c \<and> dep_Epoch y = e) (deposits s)"
    using assms by (intro find_upsert_other) (auto simp: same_deposit_def deposit_key_def)
  then show ?thesis by (simp add: GetDepositForChainAndEpoch_def SetDeposit_def)
qed

lemma GetDeposit_DeleteDeposit_other:
  assumes "deposit_key x \<noteq> (c, e)"
  shows "GetDepositForChainAndEpoch (DeleteDeposit x s) c e = GetDepositForChainAndEpoch s c e"
proof -
  have "find (\<lambda>y. dep_ChainId y = c \<and> dep_Epoch y = e)
          (filter (\<lambda>y. \<not> same_deposit x y) (deposits s))
        = find (\<lambda>y. dep_ChainId y = c \<and> dep_Epoch y = e) (deposits s)"
    using assms by (intro find_filter_other) (auto simp: same_deposit_def deposit_key_def)
  then show ?thesis by (simp add: GetDepositForChainAndEpoch_def DeleteDeposit_def)
qed

lemma GetDeposit_DeleteDeposit_same:
  "GetDepositForChainAndEpoch (DeleteDeposit x s) (dep_ChainId x) (dep_Epoch x) = None"
  by (auto simp: GetDepositForChainAndEpoch_def DeleteDeposit_def same_deposit_def find_None_iff)

lemma GetDeposit_frame [simp]:
  "GetDepositForChainAndEpoch (EmitEvent ev s) c e = GetDepositForChainAndEpoch s c e"
  "GetDepositForChainAndEpoch (EmitEvents evs s) c e = GetDepositForChainAndEpoch s c e"
  "GetDepositForChainAndEpoch (record_call x s) c e = GetDepositForChainAndEpoch s c e"
  by (simp_all add: GetDepositForChainAndEpoch_def EmitEvent_def EmitEvents_def record_call_def)

lemma deposit_transfers_frame [simp]:
  "deposit_transfers c e (EmitEvent ev s) = deposit_transfers c e s"
  "deposit_transfers c e (EmitEvents evs s) = deposit_transfers c e s"
  "deposit_transfers c e (SetDeposit x s) = deposit_transfers c e s"
  "deposit_transfers c e (DeleteDeposit x s) = deposit_transfers c e s"
  "deposit_transfers c e (record_call y s)
     = deposit_transfers c e s @ (if is_deposit_transfer c e y then [y] else [])"
  by (simp_all add: deposit_transfers_def EmitEvent_def EmitEvents_def record_call_def
      SetDeposit_def DeleteDeposit_def)

lemma hostChains_frame [simp]:
  "hostChains (EmitEvent ev s) = hostChains s"
  "hostChains (EmitEvents evs s) = hostChains s"
  "hostChains (SetDeposit x s) = hostChains s"
  "hostChains (DeleteDeposit x s) = hostChains s"
  "hostChains (record_call y s) = hostChains s"
  by (simp_all add: EmitEvent_def EmitEvents_def record_call_def SetDeposit_def
      DeleteDeposit_def)

lemma deposit_step_hostChains:
  "hostChains (DepositWorkflow_deposit router da to epoch x s) = hostChains s"
  by (simp add: DepositWorkflow_deposit_def Let_def split: option.splits sum.splits)

lemma deposit_step_other:
  assumes "deposit_key x \<noteq> (c, e)"
  shows "GetDepositForChainAndEpoch (DepositWorkflow_deposit router da to epoch x s) c e
           = GetDepositForChainAndEpoch s c e \<and>
         deposit_transfers c e (DepositWorkflow_deposit router da to epoch x s)
           = deposit_transfers c e s"
proof (cases "GetHostChain s (dep_ChainId x)")
  case None
  then show ?thesis by (simp add: DepositWorkflow_deposit_def)
next
  case (Some hc)
  from GetHostChain_key [OF Some] have k: "hc_ChainId hc = dep_ChainId x" .
  have k': "\<And>sq st. deposit_key (x\<lparr>dep_State := st, dep_IbcSequenceId := sq\<rparr>) \<noteq> (c, e)"
    using assms by (simp add: deposit_key_def)
  show ?thesis
    using Some assms k
    by (auto simp: DepositWorkflow_deposit_def Let_def GetDeposit_SetDeposit_other [OF k']
        GetDeposit_DeleteDeposit_other deposit_key_def split: sum.splits option.splits)
qed

lemma deposit_fold_other:
  assumes "\<forall>x\<in>set xs. deposit_key x \<noteq> (c, e)"
  shows "GetDepositForChainAndEpoch (fold (DepositWorkflow_deposit router da to epoch) xs s) c e
           = GetDepositForChainAndEpoch s c e \<and>
         deposit_transfers c e (fold (DepositWorkflow_deposit router da to epoch) xs s)
           = deposit_transfers c e s \<and>
         hostChains (fold (DepositWorkflow_deposit router da to epoch) xs s) = hostChains s"
  using assms
proof (induction xs arbitrary: s)
  case Nil
  then show ?case by simp
next
  case (Cons x xs)
  then show ?case
    using deposit_step_other [of x c e router da to epoch s]
    by (simp add: deposit_step_hostChains)
qed


lemma deposit_step_self:
  assumes "coin_Amount (dep_Amount d) \<le> 0"
    and "GetHostChain s (dep_ChainId d) = Some hc"
  shows "DepositWorkflow_deposit router da to epoch d s
           = (if dep_Epoch d < epoch then DeleteDeposit d s else s)"
  using assms by (simp add: DepositWorkflow_deposit_def)

lemma GetHostChain_hostChains:
  "hostChains s' = hostChains s \<Longrightarrow> GetHostChain s' c = GetHostChain s c"
  by (simp add: GetHostChain_def)

lemma GetDeposit_member:
  assumes "distinct (map deposit_key (deposits s))" and "d \<in> set (deposits s)"
  shows "GetDepositForChainAndEpoch s (dep_ChainId d) (dep_Epoch d) = Some d"
proof -
  have "(\<lambda>y. dep_ChainId y = dep_ChainId d \<and> dep_Epoch y = dep_Epoch d)
          = (\<lambda>y. deposit_key y = deposit_key d)"
    by (auto simp: deposit_key_def fun_eq_iff)
  with find_distinct_key [OF assms] show ?thesis
    by (simp add: GetDepositForChainAndEpoch_def)
qed

text \<open>
  C9, as the code has it. In the deposit workflow run at epoch E, a pending deposit of a
  registered host chain whose amount is at most 0 is deleted if and only if its epoch is
  strictly less than E; otherwise (in particular when its epoch equals E) it is left in
  place unchanged; and in either case no transfer is submitted for it. The keys
  (chain id, epoch) of the stored deposits are distinct.
\<close>

theorem deposit_workflow_prunes_empty:
  assumes mem: "d \<in> set (deposits s)"
    and dist: "distinct (map deposit_key (deposits s))"
    and pend: "dep_State d = DEPOSIT_PENDING"
    and amt: "coin_Amount (dep_Amount d) \<le> 0"
    and reg: "GetHostChain s (dep_ChainId d) = Some hc"
  shows "(GetDepositForChainAndEpoch (DepositWorkflow router da to s epoch)
            (dep_ChainId d) (dep_Epoch d) = None \<longleftrightarrow> dep_Epoch d < epoch) \<and>
         (\<not> dep_Epoch d < epoch \<longrightarrow>
            GetDepositForChainAndEpoch (DepositWorkflow router da to s epoch)
              (dep_ChainId d) (dep_Epoch d) = Some d) \<and>
         deposit_transfers (dep_ChainId d) (dep_Epoch d) (DepositWorkflow router da to s epoch)
           = deposit_transfers (dep_ChainId d) (dep_Epoch d) s"
proof -
  let ?step = "DepositWorkflow_deposit router da to epoch"
  let ?pending = "GetPendingDepositsBeforeEpoch s epoch"
  let ?c = "dep_ChainId d" and ?e = "dep_Epoch d"
  let ?final = "DepositWorkflow router da to s epoch"
  have final: "?final = fold ?step ?pending s" by (simp add: DepositWorkflow_def)
  have dp: "distinct (map deposit_key ?pending)"
    using dist by (simp add: GetPendingDepositsBeforeEpoch_def distinct_map_filter)
  have sub: "set ?pending \<subseteq> set (deposits s)"
    by (auto simp: GetPendingDepositsBeforeEpoch_def)
  have here: "GetDepositForChainAndEpoch s ?c ?e = Some d"
    by (rule GetDeposit_member [OF dist mem])
  show ?thesis
  proof (cases "d \<in> set ?pending")
    case False
    with mem pend have ne: "\<not> dep_Epoch d \<le> epoch"
      by (simp add: GetPendingDepositsBeforeEpoch_def)
    have "\<forall>x\<in>set ?pending. deposit_key x \<noteq> (?c, ?e)"
    proof
      fix x assume x: "x \<in> set ?pending"
      show "deposit_key x \<noteq> (?c, ?e)"
      proof
        assume "deposit_key x = (?c, ?e)"
        then have "deposit_key x = deposit_key d" by (simp add: deposit_key_def)
        with dist mem x sub have "x = d"
          by (metis distinct_map inj_on_eq_iff subsetD)
        with x False show False by simp
      qed
    qed
    from deposit_fold_other [OF this, of router da to epoch s] here ne final
    show ?thesis by simp
  next
    case True
    then obtain pre post where sp: "?pending = pre @ d # post"
      by (auto dest: split_list)
    from dp sp have "deposit_key d \<notin> deposit_key ` set pre"
      and "deposit_key d \<notin> deposit_key ` set post" by auto
    then have pre: "\<forall>x\<in>set pre. deposit_key x \<noteq> (?c, ?e)"
      and post: "\<forall>x\<in>set post. deposit_key x \<noteq> (?c, ?e)"
      by (auto simp: image_iff deposit_key_def)
    let ?s1 = "fold ?step pre s"
    let ?s2 = "?step d ?s1"
    note p1 = deposit_fold_other [OF pre, of router da to epoch s]
    note p2 = deposit_fold_other [OF post, of router da to epoch ?s2]
    from p1 reg GetHostChain_hostChains [of ?s1 s ?c]
    have reg1: "GetHostChain ?s1 ?c = Some hc" by simp
    have s2: "?s2 = (if ?e < epoch then DeleteDeposit d ?s1 else ?s1)"
      by (rule deposit_step_self [OF amt reg1])
    have "?final = fold ?step post ?s2" by (simp add: final sp)
    with p1 p2 s2 here show ?thesis
      by (cases "?e < epoch") (simp_all add: GetDeposit_DeleteDeposit_same)
  qed
qed

lemmas deposit_eval = DepositWorkflow_def DepositWorkflow_deposit_def
  GetPendingDepositsBeforeEpoch_def GetHostChain_def GetDepositForChainAndEpoch_def
  DeleteDeposit_def SetDeposit_def same_deposit_def deposit_transfer_msg_def
  deposit_transfers_def record_call_def EmitEvent_def EmitEvents_def NewCoin_def Let_def

text \<open>
  C9 as stated fails for a deposit whose chain is not registered: the lookup of the host
  chain comes first and skips the deposit, so a pending deposit of amount 0 and epoch 3 is
  still in the store after the workflow has run at epoch 5.
\<close>

theorem deposit_of_unregistered_chain_not_pruned:
  "dep_State (ex_deposit ''X'' 3 0) = DEPOSIT_PENDING \<and>
   coin_Amount (dep_Amount (ex_deposit ''X'' 3 0)) \<le> 0 \<and>
   dep_Epoch (ex_deposit ''X'' 3 0) < 5 \<and>
   ex_deposit ''X'' 3 0 \<in> set (deposits ex_orphan_deposit_state) \<and>
   GetDepositForChainAndEpoch
     (DepositWorkflow ex_router_ok ''deposit-module'' 60 ex_orphan_deposit_state 5) ''X'' 3
     = Some (ex_deposit ''X'' 3 0)"
  by (simp add: deposit_eval ex_defs)

theorem deposit_workflow_prunes_empty_witness:
  "ex_deposit ''A'' 3 0 \<in> set (deposits ex_deposit_state) \<and>
   ex_deposit ''A'' 5 0 \<in> set (deposits ex_deposit_state) \<and>
   distinct (map deposit_key (deposits ex_deposit_state)) \<and>
   dep_State (ex_deposit ''A'' 3 0) = DEPOSIT_PENDING \<and>
   dep_State (ex_deposit ''A'' 5 0) = DEPOSIT_PENDING \<and>
   coin_Amount (dep_Amount (ex_deposit ''A'' 3 0)) \<le> 0 \<and>
   coin_Amount (dep_Amount (ex_deposit ''A'' 5 0)) \<le> 0 \<and>
   GetHostChain ex_deposit_state ''A'' = Some (ex_chain ''A'' True []) \<and>
   GetDepositForChainAndEpoch
     (DepositWorkflow ex_router_ok ''deposit-module'' 60 ex_deposit_state 5) ''A'' 3 = None \<and>
   GetDepositForChainAndEpoch
     (DepositWorkflow ex_router_ok ''deposit-module'' 60 ex_deposit_state 5) ''A'' 5
     = Some (ex_deposit ''A'' 5 0) \<and>
   deposit_transfers ''A'' 3
     (DepositWorkflow ex_router_ok ''deposit-module'' 60 ex_deposit_state 5) = [] \<and>
   deposit_transfers ''A'' 5
     (DepositWorkflow ex_router_ok ''deposit-module'' 60 ex_deposit_state 5) = [] \<and>
   deposit_transfers ''A'' 4
     (DepositWorkflow ex_router_ok ''deposit-module'' 60 ex_deposit_state 5)
     = [DepositTransfer ''A'' 4
          (MsgTransfer ''channel-A'' (NewCoin ''ibc/uatom'' 1000) ''deposit-module''
             ''A.delegation'' 60 []) True]"
proof -
  let ?final = "DepositWorkflow ex_router_ok ''deposit-module'' 60 ex_deposit_state 5"
  have m3: "ex_deposit ''A'' 3 0 \<in> set (deposits ex_deposit_state)"
    and m5: "ex_deposit ''A'' 5 0 \<in> set (deposits ex_deposit_state)"
    by (simp_all add: ex_deposit_state_def)
  have di: "distinct (map deposit_key (deposits ex_deposit_state))"
    by (simp add: ex_deposit_state_def ex_deposit_def deposit_key_def)
  have p3: "dep_State (ex_deposit ''A'' 3 0) = DEPOSIT_PENDING"
    and p5: "dep_State (ex_deposit ''A'' 5 0) = DEPOSIT_PENDING"
    by (simp_all add: ex_deposit_def)
  have a3: "coin_Amount (dep_Amount (ex_deposit ''A'' 3 0)) \<le> 0"
    and a5: "coin_Amount (dep_Amount (ex_deposit ''A'' 5 0)) \<le> 0"
    by (simp_all add: ex_deposit_def NewCoin_def)
  have r: "GetHostChain ex_deposit_state ''A'' = Some (ex_chain ''A'' True [])"
    by (simp add: GetHostChain_def ex_defs)
  have r3: "GetHostChain ex_deposit_state (dep_ChainId (ex_deposit ''A'' 3 0))
      = Some (ex_chain ''A'' True [])"
    and r5: "GetHostChain ex_deposit_state (dep_ChainId (ex_deposit ''A'' 5 0))
      = Some (ex_chain ''A'' True [])"
    using r by (simp_all add: ex_deposit_def)
  have k: "dep_ChainId (ex_deposit ''A'' 3 0) = ''A''" "dep_Epoch (ex_deposit ''A'' 3 0) = 3"
    "dep_ChainId (ex_deposit ''A'' 5 0) = ''A''" "dep_Epoch (ex_deposit ''A'' 5 0) = 5"
    "deposit_transfers ''A'' 3 ex_deposit_state = []"
    "deposit_transfers ''A'' 5 ex_deposit_state = []"
    by (simp_all add: ex_deposit_def deposit_transfers_def ex_deposit_state_def ex_state_def)
  from deposit_workflow_prunes_empty [OF m3 di p3 a3 r3, of ex_router_ok "''deposit-module''" 60 5]
  have c3: "GetDepositForChainAndEpoch ?final ''A'' 3 = None"
    "deposit_transfers ''A'' 3 ?final = []"
    by (simp_all add: k)
  from deposit_workflow_prunes_empty [OF m5 di p5 a5 r5, of ex_router_ok "''deposit-module''" 60 5]
  have c5: "GetDepositForChainAndEpoch ?final ''A'' 5 = Some (ex_deposit ''A'' 5 0)"
    "deposit_transfers ''A'' 5 ?final = []"
    by (simp_all add: k)
  have c4: "deposit_transfers ''A'' 4 ?final
     = [DepositTransfer ''A'' 4
          (MsgTransfer ''channel-A'' (NewCoin ''ibc/uatom'' 1000) ''deposit-module''
             ''A.delegation'' 60 []) True]"
    by (simp add: deposit_eval ex_defs)
  from m3 m5 di p3 p5 a3 a5 r c3 c5 c4 show ?thesis by blast
qed

section \<open>Records settled by sequence id\<close>

lemma upsert_key_map:
  assumes "distinct (map key xs)" and "d \<in> set xs" and "key d' = key d"
  shows "upsert (\<lambda>y. key y = key d') d' xs = map (\<lambda>y. if y = d then d' else y) xs"
  using assms
proof (induction xs)
  case Nil
  then show ?case by simp
next
  case (Cons x xs)
  show ?case
  proof (cases "key x = key d")
    case True
    with Cons.prems have xd: "x = d" by (auto simp: image_iff)
    with Cons.prems have "d \<notin> set xs" by (auto simp: image_iff)
    then have "map (\<lambda>y. if y = d then d' else y) xs = xs"
      by (induction xs) auto
    with True xd Cons.prems show ?thesis by simp
  next
    case False
    with Cons show ?thesis by auto
  qed
qed

lemma fold_upsert_map:
  assumes kf: "\<And>d. key (f d) = key d"
  shows "distinct (map key xs) \<Longrightarrow> set ds \<subseteq> set xs \<Longrightarrow> distinct ds \<Longrightarrow>
         fold (\<lambda>d. upsert (\<lambda>y. key y = key (f d)) (f d)) ds xs
           = map (\<lambda>y. if y \<in> set ds then f y else y) xs"
proof (induction ds arbitrary: xs)
  case Nil
  then show ?case by simp
next
  case (Cons d ds)
  let ?xs1 = "map (\<lambda>y. if y = d then f d else y) xs"
  have inj: "inj_on key (set xs)" using Cons.prems(1) by (simp add: distinct_map)
  have d: "d \<in> set xs" using Cons.prems(2) by simp
  have step: "upsert (\<lambda>y. key y = key (f d)) (f d) xs = ?xs1"
    by (rule upsert_key_map [OF Cons.prems(1) d kf])
  have keys: "map key ?xs1 = map key xs" by (simp add: kf)
  have d1: "distinct (map key ?xs1)" using Cons.prems(1) by (simp only: keys)
  have sub: "set ds \<subseteq> set ?xs1"
  proof
    fix y assume y: "y \<in> set ds"
    with Cons.prems have "y \<in> set xs" "y \<noteq> d" by auto
    then show "y \<in> set ?xs1" by (auto simp: image_iff)
  qed
  have fd: "f d \<notin> set ds"
  proof
    assume a: "f d \<in> set ds"
    with Cons.prems(2) have "f d \<in> set xs" by auto
    with inj d kf [of d] have "f d = d" by (auto dest: inj_onD)
    with a Cons.prems(3) show False by simp
  qed
  have "fold (\<lambda>d. upsert (\<lambda>y. key y = key (f d)) (f d)) (d # ds) xs
          = map (\<lambda>y. if y \<in> set ds then f y else y) ?xs1"
    using Cons.IH [OF d1 sub] Cons.prems(3) step by simp
  also have "\<dots> = map (\<lambda>y. if y \<in> set (d # ds) then f y else y) xs"
    using fd by auto
  finally show ?case .
qed

lemma fold_upsert_filter:
  assumes kf: "\<And>d. key (f d) = key d" and dist: "distinct (map key xs)"
  shows "fold (\<lambda>d. upsert (\<lambda>y. key y = key (f d)) (f d)) (filter P xs) xs
           = map (\<lambda>y. if P y then f y else y) xs"
proof -
  have "distinct xs" using dist by (simp add: distinct_map)
  then have "fold (\<lambda>d. upsert (\<lambda>y. key y = key (f d)) (f d)) (filter P xs) xs
           = map (\<lambda>y. if y \<in> set (filter P xs) then f y else y) xs"
    using dist kf by (intro fold_upsert_map [where key = key and f = f]) auto
  also have "\<dots> = map (\<lambda>y. if P y then f y else y) xs" by auto
  finally show ?thesis .
qed


lemma fold_SetDeposit:
  "fold (\<lambda>d. SetDeposit (g d)) ds s
     = s\<lparr>deposits := fold (\<lambda>d. upsert (same_deposit (g d)) (g d)) ds (deposits s)\<rparr>"
  by (induction ds arbitrary: s) (simp_all add: SetDeposit_def)

lemma fold_SetLSMDeposit:
  "fold (\<lambda>d. SetLSMDeposit (g d)) ds s
     = s\<lparr>lsmDeposits := fold (\<lambda>d. upsert (same_lsm_deposit (g d)) (g d)) ds (lsmDeposits s)\<rparr>"
  by (induction ds arbitrary: s) (simp_all add: SetLSMDeposit_def)

lemma same_deposit_key: "same_deposit d = (\<lambda>y. deposit_key y = deposit_key d)"
  by (auto simp: same_deposit_def deposit_key_def fun_eq_iff)

lemma same_lsm_deposit_key: "same_lsm_deposit d = (\<lambda>y. lsm_Id y = lsm_Id d)"
  by (auto simp: same_lsm_deposit_def fun_eq_iff)

lemma set_matching_deposits:
  assumes "\<And>d. deposit_key (g d) = deposit_key d"
    and "distinct (map deposit_key (deposits s))"
  shows "fold (\<lambda>d. SetDeposit (g d)) (GetDepositsWithSequenceID s sid) s
           = s\<lparr>deposits := map (\<lambda>d. if dep_IbcSequenceId d = sid then g d else d) (deposits s)\<rparr>"
  using fold_upsert_filter [where key = deposit_key and f = g and xs = "deposits s"
      and P = "\<lambda>d. dep_IbcSequenceId d = sid", OF assms]
  by (simp add: fold_SetDeposit same_deposit_key GetDepositsWithSequenceID_def)

lemma set_matching_lsm_deposits:
  assumes "\<And>d. lsm_Id (g d) = lsm_Id d"
    and "distinct (map lsm_Id (lsmDeposits s))"
  shows "fold (\<lambda>d. SetLSMDeposit (g d)) (GetLSMDepositsFromIbcSequenceID s sid) s
           = s\<lparr>lsmDeposits :=
                 map (\<lambda>d. if lsm_IbcSequenceId d = sid then g d else d) (lsmDeposits s)\<rparr>"
  using fold_upsert_filter [where key = lsm_Id and f = g and xs = "lsmDeposits s"
      and P = "\<lambda>d. lsm_IbcSequenceId d = sid", OF assms]
  by (simp add: fold_SetLSMDeposit same_lsm_deposit_key GetLSMDepositsFromIbcSequenceID_def)

lemma RevertDepositsState_matching:
  assumes "distinct (map deposit_key (deposits s))"
  shows "RevertDepositsState (GetDepositsWithSequenceID s sid) s
           = s\<lparr>deposits := map (revert_deposit sid) (deposits s)\<rparr>"
proof -
  have "(\<lambda>d. if dep_IbcSequenceId d = sid
              then d\<lparr>dep_IbcSequenceId := [], dep_State := DEPOSIT_PENDING\<rparr> else d)
        = revert_deposit sid" by (simp add: revert_deposit_def fun_eq_iff)
  with set_matching_deposits [where g = "\<lambda>d. d\<lparr>dep_IbcSequenceId := [], dep_State := DEPOSIT_PENDING\<rparr>"
      and s = s and sid = sid] assms
  show ?thesis by (simp add: RevertDepositsState_def deposit_key_def)
qed

lemma RevertLSMDepositsState_matching:
  assumes "distinct (map lsm_Id (lsmDeposits s))"
  shows "RevertLSMDepositsState (GetLSMDepositsFromIbcSequenceID s sid) s
           = s\<lparr>lsmDeposits := map (revert_lsm_deposit sid) (lsmDeposits s)\<rparr>"
proof -
  have "(\<lambda>d. if lsm_IbcSequenceId d = sid
              then d\<lparr>lsm_IbcSequenceId := [], lsm_State := DEPOSIT_PENDING\<rparr> else d)
        = revert_lsm_deposit sid" by (simp add: revert_lsm_deposit_def fun_eq_iff)
  with set_matching_lsm_deposits [where g = "\<lambda>d. d\<lparr>lsm_IbcSequenceId := [], lsm_State := DEPOSIT_PENDING\<rparr>"
      and s = s and sid = sid] assms
  show ?thesis by (simp add: RevertLSMDepositsState_def)
qed

lemma GetHostChain_cong: "hostChains s' = hostChains s \<Longrightarrow> GetHostChain s' = GetHostChain s"
  by (simp add: GetHostChain_def fun_eq_iff)

lemma emit_deposit_events_state:
  "\<exists>es. snd (emit_deposit_events ev ds s) = EmitEvents es s"
proof (induction ds arbitrary: s)
  case Nil
  have "s = EmitEvents [] s" by (simp add: EmitEvents_def)
  then show ?case by auto
next
  case (Cons d ds)
  show ?case
  proof (cases "GetHostChain s (dep_ChainId d)")
    case None
    have "s = EmitEvents [] s" by (simp add: EmitEvents_def)
    with None show ?thesis by auto
  next
    case (Some hc)
    from Cons.IH [of "EmitEvent (ev (hc_ChainId hc)) s"] obtain es
      where "snd (emit_deposit_events ev ds (EmitEvent (ev (hc_ChainId hc)) s))
               = EmitEvents es (EmitEvent (ev (hc_ChainId hc)) s)" by auto
    then have "snd (emit_deposit_events ev (d # ds) s) = EmitEvents (ev (hc_ChainId hc) # es) s"
      using Some by (simp add: EmitEvents_def EmitEvent_def)
    then show ?thesis by blast
  qed
qed

lemma emit_deposit_events_ok:
  assumes "\<forall>d\<in>set ds. GetHostChain s (dep_ChainId d) \<noteq> None"
  shows "emit_deposit_events ev ds s = (None, EmitEvents (map (\<lambda>d. ev (dep_ChainId d)) ds) s)"
  using assms
proof (induction ds arbitrary: s)
  case Nil
  then show ?case by (simp add: EmitEvents_def)
next
  case (Cons d ds)
  then obtain hc where hc: "GetHostChain s (dep_ChainId d) = Some hc" by auto
  have g: "GetHostChain (EmitEvent (ev (hc_ChainId hc)) s) = GetHostChain s"
    by (rule GetHostChain_cong) (simp add: EmitEvent_def)
  from Cons.prems have "\<forall>x\<in>set ds. GetHostChain (EmitEvent (ev (hc_ChainId hc)) s) (dep_ChainId x) \<noteq> None"
    by (simp add: g)
  from Cons.IH [OF this] hc GetHostChain_key [OF hc] show ?case
    by (simp add: EmitEvents_def EmitEvent_def)
qed

lemma emit_lsm_events_state:
  "\<exists>es. snd (emit_lsm_events ev ds s) = EmitEvents es s"
proof (induction ds arbitrary: s)
  case Nil
  have "s = EmitEvents [] s" by (simp add: EmitEvents_def)
  then show ?case by auto
next
  case (Cons d ds)
  show ?case
  proof (cases "GetHostChain s (lsm_ChainId d)")
    case None
    have "s = EmitEvents [] s" by (simp add: EmitEvents_def)
    with None show ?thesis by auto
  next
    case (Some hc)
    from Cons.IH [of "EmitEvent (ev (hc_ChainId hc)) s"] obtain es
      where "snd (emit_lsm_events ev ds (EmitEvent (ev (hc_ChainId hc)) s))
               = EmitEvents es (EmitEvent (ev (hc_ChainId hc)) s)" by auto
    then have "snd (emit_lsm_events ev (d # ds) s) = EmitEvents (ev (hc_ChainId hc) # es) s"
      using Some by (simp add: EmitEvents_def EmitEvent_def)
    then show ?thesis by blast
  qed
qed


text \<open>
  C3. For a timeout callback (no transport error, data that decodes) whose packet sender is
  the deposit module account: in the state the handler reaches, every Deposit and every
  LSMDeposit record that carried the sequence id of the packet is PENDING with its sequence
  id cleared, every other record is as before, the registry of host chains (and with it
  every tracked delegation balance) is unchanged, and so are the amounts and shares of all
  records. The keys of the stored records are distinct and the chains of the matching
  deposits are registered.
\<close>

theorem timeout_reverts_matching_records:
  assumes data: "pkt_Data packet = Some data"
    and sender: "ftpd_Sender data = depositModuleAddress"
    and dk: "distinct (map deposit_key (deposits s))"
    and lk: "distinct (map lsm_Id (lsmDeposits s))"
    and reg: "\<forall>d\<in>set (deposits s).
                dep_IbcSequenceId d
                  = GetTransactionSequenceID (pkt_SourceChannel packet) (pkt_Sequence packet)
                \<longrightarrow> GetHostChain s (dep_ChainId d) \<noteq> None"
  shows "deposits (snd (OnTimeoutIBCTransferPacket depositModuleAddress packet None s))
           = map (revert_deposit
                    (GetTransactionSequenceID (pkt_SourceChannel packet) (pkt_Sequence packet)))
               (deposits s) \<and>
         lsmDeposits (snd (OnTimeoutIBCTransferPacket depositModuleAddress packet None s))
           = map (revert_lsm_deposit
                    (GetTransactionSequenceID (pkt_SourceChannel packet) (pkt_Sequence packet)))
               (lsmDeposits s) \<and>
         hostChains (snd (OnTimeoutIBCTransferPacket depositModuleAddress packet None s))
           = hostChains s \<and>
         map dep_Amount
             (deposits (snd (OnTimeoutIBCTransferPacket depositModuleAddress packet None s)))
           = map dep_Amount (deposits s) \<and>
         map lsm_Shares
             (lsmDeposits (snd (OnTimeoutIBCTransferPacket depositModuleAddress packet None s)))
           = map lsm_Shares (lsmDeposits s)"
proof -
  let ?sid = "GetTransactionSequenceID (pkt_SourceChannel packet) (pkt_Sequence packet)"
  let ?ds = "GetDepositsWithSequenceID s ?sid"
  let ?s0 = "s\<lparr>deposits := map (revert_deposit ?sid) (deposits s)\<rparr>"
  let ?ev = "\<lambda>c. EventStakingDepositTransferTimeout c ?sid"
  let ?s1 = "EmitEvents (map (\<lambda>d. ?ev (dep_ChainId d)) ?ds) ?s0"
  let ?ls = "GetLSMDepositsFromIbcSequenceID ?s1 ?sid"
  let ?s2 = "?s1\<lparr>lsmDeposits := map (revert_lsm_deposit ?sid) (lsmDeposits ?s1)\<rparr>"
  let ?lev = "\<lambda>c. EventLSMDepositTransferTimeout c ?sid"
  have r0: "RevertDepositsState ?ds s = ?s0" by (rule RevertDepositsState_matching [OF dk])
  have "GetHostChain ?s0 = GetHostChain s" by (rule GetHostChain_cong) simp
  with reg have "\<forall>d\<in>set ?ds. GetHostChain ?s0 (dep_ChainId d) \<noteq> None"
    by (simp add: GetDepositsWithSequenceID_def)
  then have e1: "emit_deposit_events ?ev ?ds ?s0 = (None, ?s1)"
    by (rule emit_deposit_events_ok)
  have l1: "lsmDeposits ?s1 = lsmDeposits s" by (simp add: EmitEvents_def)
  have r1: "RevertLSMDepositsState ?ls ?s1 = ?s2"
    by (rule RevertLSMDepositsState_matching) (simp add: l1 lk)
  obtain es where e2: "snd (emit_lsm_events ?lev ?ls ?s2) = EmitEvents es ?s2"
    using emit_lsm_events_state by blast
  have "snd (OnTimeoutIBCTransferPacket depositModuleAddress packet None s) = EmitEvents es ?s2"
    using data sender r0 e1 r1 e2
    by (simp add: OnTimeoutIBCTransferPacket_def Let_def)
  moreover have "map dep_Amount (map (revert_deposit ?sid) (deposits s)) = map dep_Amount (deposits s)"
    by (simp add: revert_deposit_def)
  moreover have "map lsm_Shares (map (revert_lsm_deposit ?sid) (lsmDeposits s))
                   = map lsm_Shares (lsmDeposits s)"
    by (simp add: revert_lsm_deposit_def)
  ultimately show ?thesis by (simp add: EmitEvents_def)
qed

end
